theory Spec2Isabelle
  imports Complex_Main "HOL-Library.Word"
begin

section \<open>The topology router of the Shadow simulator (src/topology/shd-topology.c)\<close>

text \<open>
  The C file is embedded function by function. Conventions of the embedding:
  \<^item> \<open>igraph_real_t\<close> and \<open>gdouble\<close> are the reals: arithmetic is exact, the rounding of
    IEEE doubles is not part of the model;
  \<^item> \<open>igraph_integer_t\<close> and \<open>gint\<close> are \<open>int\<close>; no count in the file comes near a bound;
  \<^item> every function takes the state it reads (\<open>Topology\<close>) and returns the state it
    leaves, together with the log lines it has printed;
  \<^item> the igraph library, libc and the glib timer are not part of the repository: what
    they return is read from an environment record \<open>env\<close>, given to every call;
  \<^item> a \<open>static\<close> function \<open>_topology_f\<close> of the source is \<open>topology_f\<close> here (a name cannot
    start with an underscore);
  \<^item> the reader/writer locks around the two hash tables are taken and released around
    one table operation each, with no exit between; they are not modelled. The graph
    mutex, which is released on several exits, is the field \<open>graphLock\<close>. Waiting for a
    mutex that another thread holds is not modelled.
\<close>

subsection \<open>Values\<close>

type_synonym igraph_integer_t = int
type_synonym igraph_real_t = real
type_synonym gdouble = real
type_synonym ShadowID = "32 word"
type_synonym in_addr_t = "32 word"
type_synonym gpointer = int

definition IGRAPH_SUCCESS :: int where
  "IGRAPH_SUCCESS = 0"

definition NULL :: gpointer where
  "NULL = 0"

definition GINT_TO_POINTER :: "igraph_integer_t \<Rightarrow> gpointer" where
  "GINT_TO_POINTER i = i"

text \<open>
  Modelled from the spec: the struct \<open>Address\<close> and its accessors \<open>address_getID\<close> and
  \<open>address_toNetworkIP\<close> are declared outside the two source files. The spec gives an
  address "a stable 32-bit ShadowID and a 32-bit virtual IPv4".
\<close>

record Address =
  address_getID :: ShadowID
  address_toNetworkIP :: in_addr_t

text \<open>
  Modelled from the spec: \<open>Path\<close>, \<open>path_new\<close>, \<open>path_getLatency\<close> and
  \<open>path_getReliability\<close> are declared outside the two source files. The spec gives a path
  as the "immutable record {latency, reliability}".
\<close>

record Path =
  path_getLatency :: gdouble
  path_getReliability :: gdouble

definition path_new :: "gdouble \<Rightarrow> gdouble \<Rightarrow> Path" where
  "path_new lat rel = \<lparr>path_getLatency = lat, path_getReliability = rel\<rparr>"

datatype log_level = Debug | Info | Message | Warning | Critical

type_synonym log_entry = "log_level \<times> string"

text \<open>
  A log line is its level and its format string; the arguments printed into the format
  are left out.
\<close>

definition debug :: "string \<Rightarrow> log_entry" where "debug s = (Debug, s)"
definition info :: "string \<Rightarrow> log_entry" where "info s = (Info, s)"
definition message :: "string \<Rightarrow> log_entry" where "message s = (Message, s)"
definition warning :: "string \<Rightarrow> log_entry" where "warning s = (Warning, s)"
definition critical :: "string \<Rightarrow> log_entry" where "critical s = (Critical, s)"

subsection \<open>The graph and the environment\<close>

text \<open>
  An \<open>igraph_t\<close> is read through the attribute queries of igraph's C attribute handler:
  \<open>VAS g name v\<close> and \<open>VAN g name v\<close> are the string and the numeric attribute \<open>name\<close> of
  vertex \<open>v\<close>, \<open>EAN g name e\<close> the numeric attribute of edge \<open>e\<close>. Vertices are numbered
  from 0 below \<open>igraph_vcount\<close>, edges from 0 below \<open>igraph_ecount\<close>; a query outside
  these ranges is undefined in C and reads whatever the table holds here.
\<close>

record igraph_t =
  igraph_vcount :: igraph_integer_t
  igraph_ecount :: igraph_integer_t
  VAS :: "string \<Rightarrow> igraph_integer_t \<Rightarrow> string"
  VAN :: "string \<Rightarrow> igraph_integer_t \<Rightarrow> igraph_real_t"
  EAN :: "string \<Rightarrow> igraph_integer_t \<Rightarrow> igraph_real_t"

text \<open>
  What the code calls and the repository does not define. An igraph function returns
  its result code first (\<open>IGRAPH_SUCCESS\<close> or an error code), then what it writes through
  its output pointers.
  \<^item> \<open>fopen\<close> gives the contents of the file at a path, \<open>None\<close> for the C \<open>NULL\<close>;
  \<^item> \<open>igraph_vit_create\<close> and \<open>igraph_eit_create\<close> give the indices that the iterator
    will visit, in order;
  \<^item> \<open>igraph_get_shortest_paths_dijkstra g w src dst\<close> gives the vertex sequence written
    to \<open>resultPathVertices\<close>;
  \<^item> \<open>igraph_get_eid g from to\<close> gives the index of an edge from \<open>from\<close> to \<open>to\<close>;
  \<^item> \<open>g_timer_elapsed\<close> is the time the timer around Dijkstra measures;
  \<^item> \<open>mem_read p\<close> is the \<open>igraph_integer_t\<close> stored at address \<open>p\<close>, \<open>None\<close> when the
    address cannot be read.
\<close>

record env =
  fopen :: "string \<Rightarrow> string option"
  igraph_read_graph_graphml :: "string \<Rightarrow> int \<times> igraph_t"
  igraph_is_connected :: "igraph_t \<Rightarrow> int \<times> bool"
  igraph_clusters :: "igraph_t \<Rightarrow> int \<times> igraph_integer_t"
  igraph_cattribute_list :: "igraph_t \<Rightarrow> int \<times> string list \<times> string list \<times> string list"
  igraph_vit_create :: "igraph_t \<Rightarrow> int \<times> igraph_integer_t list"
  igraph_eit_create :: "igraph_t \<Rightarrow> int \<times> igraph_integer_t list"
  igraph_edge :: "igraph_t \<Rightarrow> igraph_integer_t \<Rightarrow> int \<times> igraph_integer_t \<times> igraph_integer_t"
  igraph_vector_init :: int
  EANV :: "igraph_t \<Rightarrow> string \<Rightarrow> int \<times> igraph_real_t list"
  igraph_vs_1 :: "igraph_integer_t \<Rightarrow> int"
  igraph_vector_ptr_init :: int
  igraph_get_shortest_paths_dijkstra ::
    "igraph_t \<Rightarrow> igraph_real_t list option \<Rightarrow> igraph_integer_t \<Rightarrow> igraph_integer_t
      \<Rightarrow> int \<times> igraph_integer_t list"
  igraph_get_eid :: "igraph_t \<Rightarrow> igraph_integer_t \<Rightarrow> igraph_integer_t \<Rightarrow> int \<times> igraph_integer_t"
  g_timer_elapsed :: gdouble
  mem_read :: "gpointer \<Rightarrow> igraph_integer_t option"

subsection \<open>The topology\<close>

text \<open>
  \<open>struct _Topology\<close>. \<open>edgeWeights\<close> and \<open>pathCache\<close> are pointers that may be \<open>NULL\<close>
  (\<open>None\<close>). The hash tables compare their keys as integers
  (\<open>g_direct_hash\<close>, \<open>g_direct_equal\<close>): \<open>virtualIP\<close> maps a network address to the vertex
  index stored with \<open>GINT_TO_POINTER\<close> and read back with \<open>GPOINTER_TO_INT\<close>, \<open>pathCache\<close>
  maps a source ID to the table of that source, which maps a destination ID to a path.
\<close>

record Topology =
  graphPath :: string
  graphLock :: bool
  graph :: igraph_t
  edgeWeights :: "igraph_real_t list option"
  shortestPathTotalTime :: gdouble
  virtualIP :: "in_addr_t \<rightharpoonup> igraph_integer_t"
  pathCache :: "(ShadowID \<rightharpoonup> (ShadowID \<rightharpoonup> Path)) option"
  clusterCount :: igraph_integer_t
  vertexCount :: igraph_integer_t
  edgeCount :: igraph_integer_t
  isConnected :: bool

definition g_mutex_lock :: "Topology \<Rightarrow> Topology" where
  "g_mutex_lock topo = topo\<lparr>graphLock := True\<rparr>"

definition g_mutex_unlock :: "Topology \<Rightarrow> Topology" where
  "g_mutex_unlock topo = topo\<lparr>graphLock := False\<rparr>"

subsection \<open>The path cache\<close>

definition topology_getPathFromCache :: "Topology \<Rightarrow> Address \<Rightarrow> Address \<Rightarrow> Path option" where
  "topology_getPathFromCache topo source destination =
     (case pathCache topo of
        None \<Rightarrow> None
      | Some cache \<Rightarrow>
          (case cache (address_getID source) of
             None \<Rightarrow> None
           | Some sourceCache \<Rightarrow> sourceCache (address_getID destination)))"

definition topology_storePathInCache ::
  "Topology \<Rightarrow> Address \<Rightarrow> Address \<Rightarrow> Path \<Rightarrow> Topology" where
  "topology_storePathInCache topo source destination path =
     (let srcID = address_getID source;
          dstID = address_getID destination;
          cache = (case pathCache topo of None \<Rightarrow> Map.empty | Some c \<Rightarrow> c);
          sourceCache = (case cache srcID of None \<Rightarrow> Map.empty | Some sc \<Rightarrow> sc)
      in topo\<lparr>pathCache := Some (cache(srcID \<mapsto> sourceCache(dstID \<mapsto> path)))\<rparr>)"

definition topology_clearCache :: "Topology \<Rightarrow> Topology \<times> log_entry list" where
  "topology_clearCache topo =
     (topo\<lparr>pathCache := None\<rparr>,
      [message ''path cache cleared, spent %f seconds computing shortest paths''])"

subsection \<open>Shortest paths\<close>

definition topology_getConnectedVertexIndex ::
  "Topology \<Rightarrow> Address \<Rightarrow> igraph_integer_t \<times> log_entry list" where
  "topology_getConnectedVertexIndex topo address =
     (case virtualIP topo (address_toNetworkIP address) of
        None \<Rightarrow> (- 1, [warning ''address %s is not connected to the topology''])
      | Some vertexIndex \<Rightarrow> (vertexIndex, []))"

text \<open>
  The \<open>for\<close> loop of \<open>_topology_computePath\<close> over \<open>resultPathVertices[1..]\<close>. The arguments
  are \<open>fromVertexIndex\<close>, the vertices still to visit, \<open>totalLatency\<close>, \<open>totalReliability\<close>
  and the log so far. \<open>Inl result\<close> is the exit on a failing \<open>igraph_get_eid\<close>.
\<close>

fun computePath_loop ::
  "env \<Rightarrow> igraph_t \<Rightarrow> igraph_integer_t \<Rightarrow> igraph_integer_t list \<Rightarrow> igraph_real_t \<Rightarrow> igraph_real_t
    \<Rightarrow> int + (igraph_real_t \<times> igraph_real_t)" where
  "computePath_loop e g fromVertexIndex [] totalLatency totalReliability =
     Inr (totalLatency, totalReliability)"
| "computePath_loop e g fromVertexIndex (toVertexIndex # rest) totalLatency totalReliability =
     (case igraph_get_eid e g fromVertexIndex toVertexIndex of
        (result, edgeIndex) \<Rightarrow>
          if result \<noteq> IGRAPH_SUCCESS then Inl result
          else
            (let edgeLatency = EAN g ''latency'' edgeIndex;
                 edgeReliability = 1 - EAN g ''packetloss'' edgeIndex
             in computePath_loop e g toVertexIndex rest
                  (totalLatency + edgeLatency) (totalReliability * edgeReliability)))"

text \<open>
  \<open>_topology_computePath\<close>. The result is the path (\<open>None\<close> for the \<open>NULL\<close> and \<open>FALSE\<close>
  returns), the topology it leaves and the log lines of the call.
\<close>

definition topology_computePath ::
  "env \<Rightarrow> Topology \<Rightarrow> Address \<Rightarrow> Address \<Rightarrow> Path option \<times> Topology \<times> log_entry list" where
  "topology_computePath e topo srcAddress dstAddress =
     (case topology_getConnectedVertexIndex topo srcAddress of
        (srcVertexIndex, log1) \<Rightarrow>
     (case topology_getConnectedVertexIndex topo dstAddress of
        (dstVertexIndex, log2) \<Rightarrow>
      if srcVertexIndex < 0 \<or> dstVertexIndex < 0 then (None, topo, log1 @ log2)
      else if igraph_vs_1 e dstVertexIndex \<noteq> IGRAPH_SUCCESS then
        (None, topo, log1 @ log2 @ [critical ''igraph_vs_1 return non-success code %i''])
      else if igraph_vector_ptr_init e \<noteq> IGRAPH_SUCCESS then
        (None, topo, log1 @ log2 @ [critical ''igraph_vector_ptr_init return non-success code %i''])
      else if igraph_vector_init e \<noteq> IGRAPH_SUCCESS then
        (None, topo, log1 @ log2 @ [critical ''igraph_vector_init return non-success code %i''])
      else
        (let top1 = g_mutex_lock topo;
             log3 = log1 @ log2 @
               [debug ''computing shortest path between vertex %li (%s) and vertex %li (%s)''];
             (result, resultPathVertices) =
               igraph_get_shortest_paths_dijkstra e (graph top1) (edgeWeights top1)
                 srcVertexIndex dstVertexIndex;
             top2 = top1\<lparr>shortestPathTotalTime := shortestPathTotalTime top1 + g_timer_elapsed e\<rparr>
         in if result \<noteq> IGRAPH_SUCCESS then
              (None, g_mutex_unlock top2,
               log3 @ [critical ''igraph_get_shortest_paths_dijkstra return non-success code %i''])
            else
              (let totalReliability0 =
                     1 * (1 - VAN (graph top2) ''packetloss'' srcVertexIndex)
                       * (1 - VAN (graph top2) ''packetloss'' dstVertexIndex);
                   nVertices = length resultPathVertices
               in if nVertices < 2 then
                    (Some (path_new 1 totalReliability0), g_mutex_unlock top2,
                     log3 @ [debug ''shortest path %s-->%s is %f ms with %f loss, path: %s''])
                  else
                    (case computePath_loop e (graph top2) (hd resultPathVertices)
                            (tl resultPathVertices) 0 totalReliability0 of
                       Inl result \<Rightarrow>
                         (None, g_mutex_unlock top2,
                          log3 @ [warning ''igraph_get_eid return non-success code %i''])
                     | Inr (totalLatency, totalReliability) \<Rightarrow>
                         (Some (path_new totalLatency totalReliability), g_mutex_unlock top2,
                          log3 @ [debug ''shortest path %s-->%s is %f ms with %f loss, path: %s'']))))))"

subsection \<open>Queries\<close>

text \<open>
  \<open>_topology_getPathEntry\<close> returns \<open>TRUE\<close> and writes the latency and the reliability of
  the path through its two output pointers, or returns \<open>FALSE\<close>; here \<open>Some path\<close> and
  \<open>None\<close>. The callers pass one of the two pointers and read the field they asked for.
\<close>

definition topology_getPathEntry ::
  "env \<Rightarrow> Topology \<Rightarrow> Address \<Rightarrow> Address \<Rightarrow> Path option \<times> Topology \<times> log_entry list" where
  "topology_getPathEntry e topo srcAddress dstAddress =
     (case topology_getPathFromCache topo srcAddress dstAddress of
        Some path \<Rightarrow> (Some path, topo, [])
      | None \<Rightarrow>
          (case topology_computePath e topo srcAddress dstAddress of
             (Some path, topo', lg) \<Rightarrow>
               (Some path, topology_storePathInCache topo' srcAddress dstAddress path, lg)
           | (None, topo', lg) \<Rightarrow> (None, topo', lg)))"

definition topology_getLatency ::
  "env \<Rightarrow> Topology \<Rightarrow> Address \<Rightarrow> Address \<Rightarrow> gdouble \<times> Topology \<times> log_entry list" where
  "topology_getLatency e topo srcAddress dstAddress =
     (case topology_getPathEntry e topo srcAddress dstAddress of
        (Some path, topo', lg) \<Rightarrow> (path_getLatency path, topo', lg)
      | (None, topo', lg) \<Rightarrow> (- 1, topo', lg))"

definition topology_getReliability ::
  "env \<Rightarrow> Topology \<Rightarrow> Address \<Rightarrow> Address \<Rightarrow> gdouble \<times> Topology \<times> log_entry list" where
  "topology_getReliability e topo srcAddress dstAddress =
     (case topology_getPathEntry e topo srcAddress dstAddress of
        (Some path, topo', lg) \<Rightarrow> (path_getReliability path, topo', lg)
      | (None, topo', lg) \<Rightarrow> (- 1, topo', lg))"

definition topology_isRoutable ::
  "env \<Rightarrow> Topology \<Rightarrow> Address \<Rightarrow> Address \<Rightarrow> bool \<times> Topology \<times> log_entry list" where
  "topology_isRoutable e topo srcAddress dstAddress =
     (case topology_getLatency e topo srcAddress dstAddress of
        (latency, topo', lg) \<Rightarrow> (latency > - 1, topo', lg))"

subsection \<open>Loading and checking the graph\<close>

text \<open>
  The format strings of the log lines are written without the quotation marks that the
  source puts around \<open>%s\<close>.
\<close>

definition topology_loadGraph :: "env \<Rightarrow> Topology \<Rightarrow> bool \<times> Topology \<times> log_entry list" where
  "topology_loadGraph e topo =
     (case fopen e (graphPath topo) of
        None \<Rightarrow>
          (False, topo, [critical ''fopen returned NULL, problem opening graph file path %s''])
      | Some graphFile \<Rightarrow>
          (case igraph_read_graph_graphml e graphFile of
             (result, g) \<Rightarrow>
               if result \<noteq> IGRAPH_SUCCESS then
                 (False, topo,
                  [info ''reading graphml topology graph at %s'',
                   critical ''igraph_read_graph_graphml return non-success code %i''])
               else
                 (True, topo\<lparr>graph := g\<rparr>,
                  [info ''reading graphml topology graph at %s'',
                   info ''successfully read graphml topology graph at %s''])))"

definition topology_checkGraphProperties ::
  "env \<Rightarrow> Topology \<Rightarrow> bool \<times> Topology \<times> log_entry list" where
  "topology_checkGraphProperties e topo =
     (let log0 = [info ''checking graph properties...''];
          (result1, connected) = igraph_is_connected e (graph topo);
          topo1 = topo\<lparr>isConnected := connected\<rparr>
      in if result1 \<noteq> IGRAPH_SUCCESS then
           (False, topo1, log0 @ [critical ''igraph_is_connected return non-success code %i''])
         else
           (let (result2, clusters) = igraph_clusters e (graph topo1);
                topo2 = topo1\<lparr>clusterCount := clusters\<rparr>
            in if result2 \<noteq> IGRAPH_SUCCESS then
                 (False, topo2, log0 @ [critical ''igraph_clusters return non-success code %i''])
               else if \<not> isConnected topo2 \<or> clusterCount topo2 > 1 then
                 (False, topo2,
                  log0 @ [critical ''topology must be but is not strongly connected''])
               else
                 (let log1 = log0 @ [info ''graph is %s with %u %s'',
                                     info ''checking graph attributes...''];
                      (result3, gnames, vnames, enames) = igraph_cattribute_list e (graph topo2)
                  in if result3 \<noteq> IGRAPH_SUCCESS then
                       (False, topo2,
                        log1 @ [critical ''igraph_cattribute_list return non-success code %i''])
                     else
                       (True, topo2,
                        log1 @ map (\<lambda>name. debug ''found graph attribute %s'') gnames
                             @ map (\<lambda>name. debug ''found vertex attribute %s'') vnames
                             @ map (\<lambda>name. debug ''found edge attribute %s'') enames
                             @ [info ''successfully verified graph attributes'']))))"

text \<open>
  \<open>g_strstr_len haystack (-1) needle\<close> searches the whole string; the result here is
  whether the pointer it returns is not \<open>NULL\<close>.
\<close>

fun g_strstr_len :: "string \<Rightarrow> string \<Rightarrow> bool" where
  "g_strstr_len [] needle = (needle = [])"
| "g_strstr_len (c # cs) needle =
     (take (length needle) (c # cs) = needle \<or> g_strstr_len cs needle)"

definition topology_checkGraphVerticesHelperHook ::
  "Topology \<Rightarrow> igraph_integer_t \<Rightarrow> unit \<Rightarrow> unit \<times> log_entry list" where
  "topology_checkGraphVerticesHelperHook topo vertexIndex userData =
     (let idStr = VAS (graph topo) ''id'' vertexIndex
      in if g_strstr_len idStr ''poi'' then
           (userData,
            [debug (''found vertex %li (%s), type=%s ip=%s geocode=%s '' @
                    ''bandwidthup=%f bandwidthdown=%f packetloss=%f'')])
         else (userData, [debug ''found vertex %li (%s), type=%s'']))"

text \<open>
  The \<open>while\<close> loop of the two iterating functions: it calls the hook on every index of
  the iterator and counts the calls.
\<close>

fun iterate_hook ::
  "(igraph_integer_t \<Rightarrow> 'u \<Rightarrow> 'u \<times> log_entry list) \<Rightarrow> igraph_integer_t list \<Rightarrow> igraph_integer_t \<Rightarrow> 'u
    \<Rightarrow> igraph_integer_t \<times> 'u \<times> log_entry list" where
  "iterate_hook hook [] n userData = (n, userData, [])"
| "iterate_hook hook (i # rest) n userData =
     (case hook i userData of
        (userData1, log1) \<Rightarrow>
          (case iterate_hook hook rest (n + 1) userData1 of
             (n2, userData2, log2) \<Rightarrow> (n2, userData2, log1 @ log2)))"

definition topology_iterateAllVertices ::
  "env \<Rightarrow> Topology \<Rightarrow> (Topology \<Rightarrow> igraph_integer_t \<Rightarrow> 'u \<Rightarrow> 'u \<times> log_entry list) \<Rightarrow> 'u
    \<Rightarrow> igraph_integer_t \<times> 'u \<times> log_entry list" where
  "topology_iterateAllVertices e topo hook userData =
     (case igraph_vit_create e (graph topo) of
        (result, vertexIterator) \<Rightarrow>
          if result \<noteq> IGRAPH_SUCCESS then
            (- 1, userData, [critical ''igraph_vit_create return non-success code %i''])
          else iterate_hook (hook topo) vertexIterator 0 userData)"

definition topology_checkGraphVertices ::
  "env \<Rightarrow> Topology \<Rightarrow> bool \<times> Topology \<times> log_entry list" where
  "topology_checkGraphVertices e topo =
     (case topology_iterateAllVertices e topo topology_checkGraphVerticesHelperHook () of
        (n, u, lg) \<Rightarrow>
          if n < 0 then (False, topo, info ''checking graph vertices...'' # lg)
          else
            (let topo1 = topo\<lparr>vertexCount := igraph_vcount (graph topo)\<rparr>
             in (True, topo1,
                 info ''checking graph vertices...'' # lg @
                 (if vertexCount topo1 \<noteq> n
                  then [warning ''igraph_vcount %f does not match iterator count %f'']
                  else []) @
                 [info ''%u graph vertices ok''])))"

definition topology_checkGraphEdgesHelperHook ::
  "env \<Rightarrow> Topology \<Rightarrow> igraph_integer_t \<Rightarrow> unit \<Rightarrow> unit \<times> log_entry list" where
  "topology_checkGraphEdgesHelperHook e topo edgeIndex userData =
     (case igraph_edge e (graph topo) edgeIndex of
        (result, fromVertexIndex, toVertexIndex) \<Rightarrow>
          if result \<noteq> IGRAPH_SUCCESS then
            (userData, [critical ''igraph_edge return non-success code %i''])
          else
            (userData,
             [debug (''found edge %li from vertex %li (%s) to vertex %li (%s) '' @
                     ''latency=%s jitter=%s packetloss=%s'')]))"

definition topology_iterateAllEdges ::
  "env \<Rightarrow> Topology \<Rightarrow> (Topology \<Rightarrow> igraph_integer_t \<Rightarrow> 'u \<Rightarrow> 'u \<times> log_entry list) \<Rightarrow> 'u
    \<Rightarrow> igraph_integer_t \<times> 'u \<times> log_entry list" where
  "topology_iterateAllEdges e topo hook userData =
     (case igraph_eit_create e (graph topo) of
        (result, edgeIterator) \<Rightarrow>
          if result \<noteq> IGRAPH_SUCCESS then
            (- 1, userData, [critical ''igraph_eit_create return non-success code %i''])
          else iterate_hook (hook topo) edgeIterator 0 userData)"

definition topology_checkGraphEdges ::
  "env \<Rightarrow> Topology \<Rightarrow> bool \<times> Topology \<times> log_entry list" where
  "topology_checkGraphEdges e topo =
     (case topology_iterateAllEdges e topo (topology_checkGraphEdgesHelperHook e) () of
        (n, u, lg) \<Rightarrow>
          if n < 0 then (False, topo, info ''checking graph edges...'' # lg)
          else
            (let topo1 = topo\<lparr>edgeCount := igraph_ecount (graph topo)\<rparr>
             in (True, topo1,
                 info ''checking graph edges...'' # lg @
                 (if edgeCount topo1 \<noteq> n
                  then [warning ''igraph_vcount %f does not match iterator count %f'']
                  else []) @
                 [info ''%u graph edges ok''])))"

definition topology_checkGraph :: "env \<Rightarrow> Topology \<Rightarrow> bool \<times> Topology \<times> log_entry list" where
  "topology_checkGraph e topo =
     (case topology_checkGraphProperties e topo of
        (ok1, topo1, log1) \<Rightarrow>
          if \<not> ok1 then (False, topo1, log1)
          else
            (case topology_checkGraphVertices e topo1 of
               (ok2, topo2, log2) \<Rightarrow>
                 if \<not> ok2 then (False, topo2, log1 @ log2)
                 else
                   (case topology_checkGraphEdges e topo2 of
                      (ok3, topo3, log3) \<Rightarrow>
                        if \<not> ok3 then (False, topo3, log1 @ log2 @ log3)
                        else
                          (True, topo3,
                           log1 @ log2 @ log3 @
                           [message (''successfully parsed graphml at %s and validated topology: '' @
                                     ''graph is %s with %u %s, %u %s, and %u %s'')]))))"

definition topology_extractEdgeWeights ::
  "env \<Rightarrow> Topology \<Rightarrow> bool \<times> Topology \<times> log_entry list" where
  "topology_extractEdgeWeights e topo =
     (let topo1 = (g_mutex_lock topo)\<lparr>edgeWeights := Some []\<rparr>
      in if igraph_vector_init e \<noteq> IGRAPH_SUCCESS then
           (False, g_mutex_unlock topo1,
            [critical ''igraph_vector_init return non-success code %i''])
         else
           (case EANV e (graph topo1) ''latency'' of
              (result, weights) \<Rightarrow>
                (let topo2 = g_mutex_unlock (topo1\<lparr>edgeWeights := Some weights\<rparr>)
                 in if result \<noteq> IGRAPH_SUCCESS then
                      (False, topo2,
                       [critical ''igraph_cattribute_EANV return non-success code %i''])
                    else (True, topo2, []))))"

text \<open>
  \<open>topology_free\<close> releases every part of the topology and the struct itself; what is
  left of the call is the log line of \<open>_topology_clearCache\<close>.
\<close>

definition topology_free :: "Topology \<Rightarrow> log_entry list" where
  "topology_free topo = snd (topology_clearCache (topo\<lparr>virtualIP := Map.empty\<rparr>))"

text \<open>
  \<open>topology_new\<close>: \<open>g_new0\<close> gives a struct of zero bytes, with the path and an empty
  \<open>virtualIP\<close> table stored in it. \<open>None\<close> is the \<open>NULL\<close> return.
\<close>

definition g_new0_Topology :: Topology where
  "g_new0_Topology =
     \<lparr>graphPath = [], graphLock = False,
      graph = \<lparr>igraph_vcount = 0, igraph_ecount = 0,
               VAS = (\<lambda>name i. []), VAN = (\<lambda>name i. 0), EAN = (\<lambda>name i. 0)\<rparr>,
      edgeWeights = None, shortestPathTotalTime = 0, virtualIP = Map.empty,
      pathCache = None, clusterCount = 0, vertexCount = 0, edgeCount = 0,
      isConnected = False\<rparr>"

definition topology_new :: "env \<Rightarrow> string \<Rightarrow> Topology option \<times> log_entry list" where
  "topology_new e path =
     (let topo = g_new0_Topology\<lparr>graphPath := path, virtualIP := Map.empty\<rparr>
      in case topology_loadGraph e topo of
           (ok1, topo1, log1) \<Rightarrow>
             if \<not> ok1 then (None, log1 @ topology_free topo1)
             else
               (case topology_checkGraph e topo1 of
                  (ok2, topo2, log2) \<Rightarrow>
                    if \<not> ok2 then (None, log1 @ log2 @ topology_free topo2)
                    else
                      (case topology_extractEdgeWeights e topo2 of
                         (ok3, topo3, log3) \<Rightarrow>
                           if \<not> ok3 then (None, log1 @ log2 @ log3 @ topology_free topo3)
                           else (Some topo3, log1 @ log2 @ log3))))"

subsection \<open>Attaching and detaching hosts\<close>

record ConnectAssist =
  candidates :: "gpointer list"
  typeHint :: "string option"
  geocodeHint :: "string option"
  ipHint :: "string option"

definition topology_connectHelperHook ::
  "Topology \<Rightarrow> igraph_integer_t \<Rightarrow> ConnectAssist \<Rightarrow> ConnectAssist \<times> log_entry list" where
  "topology_connectHelperHook topo vertexIndex assist =
     (let idStr = VAS (graph topo) ''id'' vertexIndex
      in if g_strstr_len idStr ''poi'' then
           (assist\<lparr>candidates := candidates assist @ [GINT_TO_POINTER vertexIndex]\<rparr>, [])
         else (assist, []))"

text \<open>
  Modelled from the spec: the macro \<open>utility_assert\<close> is defined outside the two source
  files. The spec has "invariant violations ... are assertion failures" that end the
  process; a failed assertion is the outcome \<open>Assertion_failed\<close> with the text of the
  condition. \<open>Segmentation_fault\<close> is a read through a pointer that cannot be read.
\<close>

datatype abort = Assertion_failed string | Segmentation_fault

text \<open>\<open>round\<close> of the C library rounds halves away from zero.\<close>

definition c_round :: "gdouble \<Rightarrow> int" where
  "c_round x = (if 0 \<le> x then \<lfloor>x + 1 / 2\<rfloor> else \<lceil>x - 1 / 2\<rceil>)"

definition g_queue_pop_head :: "gpointer list \<Rightarrow> gpointer \<times> gpointer list" where
  "g_queue_pop_head q = (case q of [] \<Rightarrow> (NULL, []) | p # rest \<Rightarrow> (p, rest))"

text \<open>
  The \<open>while(count > 0)\<close> loop of \<open>topology_connect\<close>: the arguments are \<open>count\<close>, the queue
  and \<open>vertexIndexPtr\<close>.
\<close>

fun connect_pop_loop :: "nat \<Rightarrow> gpointer list \<Rightarrow> gpointer \<Rightarrow> gpointer \<times> gpointer list" where
  "connect_pop_loop 0 q vertexIndexPtr = (vertexIndexPtr, q)"
| "connect_pop_loop (Suc n) q vertexIndexPtr =
     (case g_queue_pop_head q of (p, rest) \<Rightarrow> connect_pop_loop n rest p)"

text \<open>The cast \<open>(guint64)\<close> of a double that is not negative.\<close>

definition guint64_of_real :: "igraph_real_t \<Rightarrow> 64 word" where
  "guint64_of_real x = word_of_int \<lfloor>x\<rfloor>"

text \<open>
  \<open>topology_connect\<close>. \<open>randomDouble\<close> is what \<open>random_nextDouble(randomSourcePool)\<close>
  returns; it is drawn only with more than one candidate. The hook puts
  \<open>GINT_TO_POINTER(vertexIndex)\<close> into the queue, and the source reads the vertex back
  with \<open>*vertexIndexPtr\<close>: a read of the memory at the address popped, \<open>mem_read\<close>. The
  result is \<open>Inl\<close> when the process ends inside the call, and otherwise the topology,
  \<open>*bwDownOut\<close>, \<open>*bwUpOut\<close> and the log.
\<close>

definition topology_connect ::
  "env \<Rightarrow> Topology \<Rightarrow> Address \<Rightarrow> gdouble \<Rightarrow> string option \<Rightarrow> string option \<Rightarrow> string option
    \<Rightarrow> abort + (Topology \<times> 64 word \<times> 64 word \<times> log_entry list)" where
  "topology_connect e topo address randomDouble ipHint' clusterHint typeHint' =
     (let nodeIP = address_toNetworkIP address;
          assist = \<lparr>candidates = [], typeHint = typeHint', geocodeHint = clusterHint,
                    ipHint = ipHint'\<rparr>;
          topo1 = g_mutex_lock topo;
          (n, assist1, log1) =
            topology_iterateAllVertices e topo1 topology_connectHelperHook assist;
          topo2 = g_mutex_unlock topo1;
          numCandidates = length (candidates assist1)
      in if \<not> numCandidates > 0 then Inl (Assertion_failed ''numCandidates > 0'')
         else
           (let vertexIndexPtr =
                  (if numCandidates > 1 then
                     fst (connect_pop_loop (nat (c_round (real numCandidates * randomDouble)))
                            (candidates assist1) NULL)
                   else fst (g_queue_pop_head (candidates assist1)))
            in if vertexIndexPtr = NULL then Inl (Assertion_failed ''vertexIndexPtr'')
               else
                 (case mem_read e vertexIndexPtr of
                    None \<Rightarrow> Inl Segmentation_fault
                  | Some vertexIndex \<Rightarrow>
                      if \<not> vertexIndex > - 1 then
                        Inl (Assertion_failed ''vertexIndex > (igraph_integer_t) -1'')
                      else
                        (let topo3 = topo2\<lparr>virtualIP := (virtualIP topo2)(nodeIP \<mapsto> vertexIndex)\<rparr>;
                             topo4 = g_mutex_lock topo3;
                             bwUp = guint64_of_real (VAN (graph topo4) ''bandwidthup'' vertexIndex);
                             bwDown = guint64_of_real (VAN (graph topo4) ''bandwidthdown'' vertexIndex)
                         in Inr (g_mutex_unlock topo4, bwDown, bwUp,
                                 log1 @ [info ''connected address %s to point of interest %s (%s, %s, %s)''])))))"

definition topology_disconnect :: "Topology \<Rightarrow> Address \<Rightarrow> Topology" where
  "topology_disconnect topo address =
     topo\<lparr>virtualIP := (virtualIP topo)(address_toNetworkIP address := None)\<rparr>"

section \<open>Specification\<close>

subsection \<open>The words of the specification\<close>

text \<open>
  An address is attached to vertex \<open>v\<close> when the \<open>virtualIP\<close> table maps its network
  address to \<open>v\<close> and \<open>v\<close> is a vertex of the graph.
\<close>

definition attached_at :: "Topology \<Rightarrow> Address \<Rightarrow> igraph_integer_t \<Rightarrow> bool" where
  "attached_at topo a v =
     (virtualIP topo (address_toNetworkIP a) = Some v \<and> 0 \<le> v \<and> v < igraph_vcount (graph topo))"

text \<open>
  "Walk the returned vertex sequence, resolve each consecutive edge": the edges of a
  vertex sequence that starts at \<open>u\<close> and goes on through \<open>vs\<close>, and whether each of them
  is found.
\<close>

fun path_edges :: "env \<Rightarrow> igraph_t \<Rightarrow> igraph_integer_t \<Rightarrow> igraph_integer_t list \<Rightarrow> igraph_integer_t list" where
  "path_edges e g u [] = []"
| "path_edges e g u (v # rest) = snd (igraph_get_eid e g u v) # path_edges e g v rest"

fun edges_resolve :: "env \<Rightarrow> igraph_t \<Rightarrow> igraph_integer_t \<Rightarrow> igraph_integer_t list \<Rightarrow> bool" where
  "edges_resolve e g u [] = True"
| "edges_resolve e g u (v # rest) =
     (fst (igraph_get_eid e g u v) = IGRAPH_SUCCESS \<and> edges_resolve e g v rest)"

definition spec_path_edges :: "env \<Rightarrow> igraph_t \<Rightarrow> igraph_integer_t list \<Rightarrow> igraph_integer_t list" where
  "spec_path_edges e g vs = (case vs of [] \<Rightarrow> [] | u # rest \<Rightarrow> path_edges e g u rest)"

definition spec_path_resolves :: "env \<Rightarrow> igraph_t \<Rightarrow> igraph_integer_t list \<Rightarrow> bool" where
  "spec_path_resolves e g vs = (case vs of [] \<Rightarrow> True | u # rest \<Rightarrow> edges_resolve e g u rest)"

text \<open>"Sum latencies" over the edges of the path.\<close>

definition spec_latency :: "env \<Rightarrow> igraph_t \<Rightarrow> igraph_integer_t list \<Rightarrow> igraph_real_t" where
  "spec_latency e g vs = sum_list (map (EAN g ''latency'') (spec_path_edges e g vs))"

text \<open>
  "End-to-end reliability as \<open>(1 - plossSrcVertex) * \<Prod>(1 - plossEdge) * (1 - plossDstVertex)\<close>".
\<close>

definition spec_reliability ::
  "env \<Rightarrow> igraph_t \<Rightarrow> igraph_integer_t \<Rightarrow> igraph_integer_t \<Rightarrow> igraph_integer_t list \<Rightarrow> igraph_real_t" where
  "spec_reliability e g sv dv vs =
     (1 - VAN g ''packetloss'' sv)
     * prod_list (map (\<lambda>ed. 1 - EAN g ''packetloss'' ed) (spec_path_edges e g vs))
     * (1 - VAN g ''packetloss'' dv)"

text \<open>
  The schema of the graph file: every edge has a latency above 0, every vertex and
  every edge a packet loss in \<open>[0,1]\<close>.
\<close>

definition graph_attributes_ok :: "igraph_t \<Rightarrow> bool" where
  "graph_attributes_ok g =
     ((\<forall>v. 0 \<le> v \<and> v < igraph_vcount g \<longrightarrow>
            0 \<le> VAN g ''packetloss'' v \<and> VAN g ''packetloss'' v \<le> 1) \<and>
      (\<forall>ed. 0 \<le> ed \<and> ed < igraph_ecount g \<longrightarrow>
            0 < EAN g ''latency'' ed \<and>
            0 \<le> EAN g ''packetloss'' ed \<and> EAN g ''packetloss'' ed \<le> 1))"

text \<open>An edge that \<open>igraph_get_eid\<close> finds is an edge of the graph.\<close>

definition eid_in_range :: "env \<Rightarrow> igraph_t \<Rightarrow> bool" where
  "eid_in_range e g =
     (\<forall>u v. fst (igraph_get_eid e g u v) = IGRAPH_SUCCESS \<longrightarrow>
            0 \<le> snd (igraph_get_eid e g u v) \<and> snd (igraph_get_eid e g u v) < igraph_ecount g)"

text \<open>A path is in range: "latency: seconds \<open>\<ge> 0\<close>, reliability: \<open>[0,1]\<close>".\<close>

definition path_in_range :: "Path \<Rightarrow> bool" where
  "path_in_range p =
     (0 \<le> path_getLatency p \<and> 0 \<le> path_getReliability p \<and> path_getReliability p \<le> 1)"

definition cache_in_range :: "Topology \<Rightarrow> bool" where
  "cache_in_range topo =
     (\<forall>cache s sourceCache d p.
        pathCache topo = Some cache \<longrightarrow> cache s = Some sourceCache \<longrightarrow> sourceCache d = Some p
        \<longrightarrow> path_in_range p)"

text \<open>A sequence of queries, each with the environment it runs in.\<close>

fun run_queries :: "Topology \<Rightarrow> (env \<times> Address \<times> Address) list \<Rightarrow> Topology" where
  "run_queries topo [] = topo"
| "run_queries topo ((e, a, b) # qs) =
     run_queries (fst (snd (topology_getPathEntry e topo a b))) qs"

text \<open>The candidates that \<open>topology_connect\<close> collects from the vertices of the graph.\<close>

definition connect_candidates ::
  "env \<Rightarrow> Topology \<Rightarrow> string option \<Rightarrow> string option \<Rightarrow> string option \<Rightarrow> gpointer list" where
  "connect_candidates e topo ipHint' clusterHint typeHint' =
     candidates (fst (snd (topology_iterateAllVertices e (g_mutex_lock topo)
        topology_connectHelperHook
        \<lparr>candidates = [], typeHint = typeHint', geocodeHint = clusterHint, ipHint = ipHint'\<rparr>)))"

text \<open>
  What a call of \<open>_topology_computePath\<close> that has run Dijkstra leaves of the topology:
  the mutex released and the time of the run added.
\<close>

definition after_dijkstra :: "env \<Rightarrow> Topology \<Rightarrow> Topology" where
  "after_dijkstra e topo =
     topo\<lparr>graphLock := False,
          shortestPathTotalTime := shortestPathTotalTime topo + g_timer_elapsed e\<rparr>"

subsection \<open>Example topologies\<close>

text \<open>
  Scenario 2 of the specification: two points of interest \<open>A\<close> (vertex 0, packet loss
  0.1) and \<open>B\<close> (vertex 1, packet loss 0.2), an edge from \<open>A\<close> to \<open>B\<close> (edge 0) and one
  back (edge 1), each with latency 10 and packet loss 0.05.
\<close>

definition scenario_graph :: igraph_t where
  "scenario_graph =
     \<lparr>igraph_vcount = 2, igraph_ecount = 2,
      VAS = (\<lambda>name v. if name = ''id'' then (if v = 0 then ''poiA'' else ''poiB'')
                       else if name = ''type'' then ''net'' else []),
      VAN = (\<lambda>name v. if name = ''packetloss'' then (if v = 0 then 1 / 10 else 2 / 10)
                       else 1024),
      EAN = (\<lambda>name ed. if name = ''latency'' then 10
                        else if name = ''packetloss'' then 5 / 100 else 0)\<rparr>"

text \<open>
  An environment in which every call succeeds on that graph: Dijkstra returns the direct
  path, or the single source vertex when the destination is the source, and
  \<open>igraph_get_eid\<close> finds the two edges and fails on any other pair (error code 4).
\<close>

definition scenario_env :: env where
  "scenario_env =
     \<lparr>fopen = (\<lambda>path. Some []),
      igraph_read_graph_graphml = (\<lambda>file. (0, scenario_graph)),
      igraph_is_connected = (\<lambda>g. (0, True)),
      igraph_clusters = (\<lambda>g. (0, 1)),
      igraph_cattribute_list = (\<lambda>g. (0, [], [''id'', ''packetloss''], [''latency'', ''packetloss''])),
      igraph_vit_create = (\<lambda>g. (0, [0, 1])),
      igraph_eit_create = (\<lambda>g. (0, [0, 1])),
      igraph_edge = (\<lambda>g ed. (0, if ed = 0 then (0, 1) else (1, 0))),
      igraph_vector_init = 0,
      EANV = (\<lambda>g name. (0, [10, 10])),
      igraph_vs_1 = (\<lambda>v. 0),
      igraph_vector_ptr_init = 0,
      igraph_get_shortest_paths_dijkstra = (\<lambda>g w s d. (0, if s = d then [s] else [s, d])),
      igraph_get_eid = (\<lambda>g u v. if u = 0 \<and> v = 1 then (0, 0)
                                 else if u = 1 \<and> v = 0 then (0, 1) else (4, 0)),
      g_timer_elapsed = 0,
      mem_read = (\<lambda>p. None)\<rparr>"

text \<open>The hosts \<open>h1\<close>, attached to \<open>A\<close>, and \<open>h2\<close>, attached to \<open>B\<close>; \<open>h3\<close> is not attached.\<close>

definition h1 :: Address where
  "h1 = \<lparr>address_getID = 1, address_toNetworkIP = 1\<rparr>"

definition h2 :: Address where
  "h2 = \<lparr>address_getID = 2, address_toNetworkIP = 2\<rparr>"

definition h3 :: Address where
  "h3 = \<lparr>address_getID = 3, address_toNetworkIP = 3\<rparr>"

definition scenario_topo :: Topology where
  "scenario_topo =
     \<lparr>graphPath = ''topology.graphml'', graphLock = False, graph = scenario_graph,
      edgeWeights = Some [10, 10], shortestPathTotalTime = 0,
      virtualIP = [1 \<mapsto> 0, 2 \<mapsto> 1], pathCache = None,
      clusterCount = 1, vertexCount = 2, edgeCount = 2, isConnected = True\<rparr>"

text \<open>The same topology with a packet loss of 1 at every vertex.\<close>

definition lossy_topo :: Topology where
  "lossy_topo =
     scenario_topo\<lparr>graph := scenario_graph\<lparr>VAN := (\<lambda>name v. 1)\<rparr>\<rparr>"

text \<open>The same topology on a graph none of whose vertices is a point of interest.\<close>

definition nopoi_topo :: Topology where
  "nopoi_topo =
     scenario_topo\<lparr>graph := scenario_graph\<lparr>VAS := (\<lambda>name v. if v = 0 then ''a'' else ''b'')\<rparr>\<rparr>"

text \<open>The same topology on a graph whose only point of interest is vertex 0.\<close>

definition single_poi_topo :: Topology where
  "single_poi_topo =
     scenario_topo\<lparr>graph := scenario_graph\<lparr>VAS := (\<lambda>name v. if v = 0 then ''poiA'' else ''b'')\<rparr>\<rparr>"

text \<open>An environment whose graph has two strong clusters.\<close>

definition disconnected_env :: env where
  "disconnected_env =
     scenario_env\<lparr>igraph_is_connected := (\<lambda>g. (0, False)), igraph_clusters := (\<lambda>g. (0, 2))\<rparr>"

text \<open>An environment in which Dijkstra fails with error code 2.\<close>

definition dijkstra_failing_env :: env where
  "dijkstra_failing_env =
     scenario_env\<lparr>igraph_get_shortest_paths_dijkstra := (\<lambda>g w s d. (2, []))\<rparr>"

text \<open>
  The topology after a query from \<open>h1\<close> to \<open>h2\<close>, and the same after \<open>h2\<close> has been
  detached.
\<close>

definition queried_topo :: Topology where
  "queried_topo = fst (snd (topology_getLatency scenario_env scenario_topo h1 h2))"

definition stale_topo :: Topology where
  "stale_topo = topology_disconnect queried_topo h2"

section \<open>Properties\<close>

subsection \<open>The loop over the path\<close>

lemma computePath_loop_resolves:
  "edges_resolve e g u vs \<Longrightarrow>
   computePath_loop e g u vs l r =
     Inr (l + sum_list (map (EAN g ''latency'') (path_edges e g u vs)),
          r * prod_list (map (\<lambda>ed. 1 - EAN g ''packetloss'' ed) (path_edges e g u vs)))"
proof (induction vs arbitrary: u l r)
  case Nil
  then show ?case by simp
next
  case (Cons v vs)
  then show ?case
    by (simp add: split_beta Let_def algebra_simps)
qed

lemma computePath_loop_fails:
  "\<not> edges_resolve e g u vs \<Longrightarrow> \<exists>c. computePath_loop e g u vs l r = Inl c"
proof (induction vs arbitrary: u l r)
  case Nil
  then show ?case by simp
next
  case (Cons v vs)
  then show ?case
    by (cases "fst (igraph_get_eid e g u v) = IGRAPH_SUCCESS") (simp_all add: split_beta Let_def)
qed

subsection \<open>The exits of the path computation\<close>

lemmas computePath_unfold =
  topology_computePath_def topology_getConnectedVertexIndex_def after_dijkstra_def
  g_mutex_lock_def g_mutex_unlock_def Let_def

lemma computePath_unattached:
  assumes "virtualIP topo (address_toNetworkIP a) = None \<or>
           virtualIP topo (address_toNetworkIP b) = None"
  shows "\<exists>lg. topology_computePath e topo a b = (None, topo, lg) \<and>
           warning ''address %s is not connected to the topology'' \<in> set lg"
  using assms
  by (auto simp: topology_computePath_def topology_getConnectedVertexIndex_def
      split: option.splits)

lemma computePath_dijkstra_fails:
  assumes "virtualIP topo (address_toNetworkIP a) = Some sv" "0 \<le> sv"
      and "virtualIP topo (address_toNetworkIP b) = Some dv" "0 \<le> dv"
      and "igraph_vs_1 e dv = IGRAPH_SUCCESS" "igraph_vector_ptr_init e = IGRAPH_SUCCESS"
          "igraph_vector_init e = IGRAPH_SUCCESS"
      and "igraph_get_shortest_paths_dijkstra e (graph topo) (edgeWeights topo) sv dv = (r, vs)"
      and "r \<noteq> IGRAPH_SUCCESS"
  shows "topology_computePath e topo a b =
           (None, after_dijkstra e topo,
            [debug ''computing shortest path between vertex %li (%s) and vertex %li (%s)'',
             critical ''igraph_get_shortest_paths_dijkstra return non-success code %i''])"
  using assms by (simp add: computePath_unfold)

lemma computePath_short:
  assumes "virtualIP topo (address_toNetworkIP a) = Some sv" "0 \<le> sv"
      and "virtualIP topo (address_toNetworkIP b) = Some dv" "0 \<le> dv"
      and "igraph_vs_1 e dv = IGRAPH_SUCCESS" "igraph_vector_ptr_init e = IGRAPH_SUCCESS"
          "igraph_vector_init e = IGRAPH_SUCCESS"
      and "igraph_get_shortest_paths_dijkstra e (graph topo) (edgeWeights topo) sv dv =
             (IGRAPH_SUCCESS, vs)"
      and "length vs < 2"
  shows "topology_computePath e topo a b =
           (Some (path_new 1 ((1 - VAN (graph topo) ''packetloss'' sv) *
                              (1 - VAN (graph topo) ''packetloss'' dv))),
            after_dijkstra e topo,
            [debug ''computing shortest path between vertex %li (%s) and vertex %li (%s)'',
             debug ''shortest path %s-->%s is %f ms with %f loss, path: %s''])"
  using assms by (simp add: computePath_unfold)

lemma computePath_long:
  assumes "virtualIP topo (address_toNetworkIP a) = Some sv" "0 \<le> sv"
      and "virtualIP topo (address_toNetworkIP b) = Some dv" "0 \<le> dv"
      and "igraph_vs_1 e dv = IGRAPH_SUCCESS" "igraph_vector_ptr_init e = IGRAPH_SUCCESS"
          "igraph_vector_init e = IGRAPH_SUCCESS"
      and "igraph_get_shortest_paths_dijkstra e (graph topo) (edgeWeights topo) sv dv =
             (IGRAPH_SUCCESS, vs)"
      and "2 \<le> length vs" "spec_path_resolves e (graph topo) vs"
  shows "topology_computePath e topo a b =
           (Some (path_new (spec_latency e (graph topo) vs)
                           (spec_reliability e (graph topo) sv dv vs)),
            after_dijkstra e topo,
            [debug ''computing shortest path between vertex %li (%s) and vertex %li (%s)'',
             debug ''shortest path %s-->%s is %f ms with %f loss, path: %s''])"
proof -
  from assms(9) obtain u v rest' where vs: "vs = u # v # rest'"
    by (cases vs; cases "tl vs") auto
  with assms(10) have res: "edges_resolve e (graph topo) u (v # rest')"
    by (simp add: spec_path_resolves_def)
  show ?thesis
    using assms(1-8) vs
    by (simp del: computePath_loop.simps edges_resolve.simps path_edges.simps
        add: computePath_unfold computePath_loop_resolves [OF res]
          spec_latency_def spec_reliability_def spec_path_edges_def algebra_simps)
qed

lemma computePath_eid_fails:
  assumes "virtualIP topo (address_toNetworkIP a) = Some sv" "0 \<le> sv"
      and "virtualIP topo (address_toNetworkIP b) = Some dv" "0 \<le> dv"
      and "igraph_vs_1 e dv = IGRAPH_SUCCESS" "igraph_vector_ptr_init e = IGRAPH_SUCCESS"
          "igraph_vector_init e = IGRAPH_SUCCESS"
      and "igraph_get_shortest_paths_dijkstra e (graph topo) (edgeWeights topo) sv dv =
             (IGRAPH_SUCCESS, vs)"
      and "\<not> spec_path_resolves e (graph topo) vs"
  shows "topology_computePath e topo a b =
           (None, after_dijkstra e topo,
            [debug ''computing shortest path between vertex %li (%s) and vertex %li (%s)'',
             warning ''igraph_get_eid return non-success code %i''])"
proof -
  from assms(9) obtain u rest where vs: "vs = u # rest"
    and res: "\<not> edges_resolve e (graph topo) u rest"
    by (cases vs) (auto simp: spec_path_resolves_def)
  from res have "rest \<noteq> []" by auto
  with vs have len: "\<not> length vs < 2" by (cases rest) auto
  from computePath_loop_fails [OF res] obtain c where
    c: "computePath_loop e (graph topo) u rest 0
          (1 * (1 - VAN (graph topo) ''packetloss'' sv) *
           (1 - VAN (graph topo) ''packetloss'' dv)) = Inl c"
    by blast
  show ?thesis
    using assms(1-8) vs len c by (simp add: computePath_unfold)
qed

lemma computePath_pathCache:
  "pathCache (fst (snd (topology_computePath e topo a b))) = pathCache topo"
  by (simp add: computePath_unfold split_beta split: option.splits sum.splits)

lemma computePath_Some_cases:
  assumes att: "virtualIP topo (address_toNetworkIP a) = Some sv" "0 \<le> sv"
      "virtualIP topo (address_toNetworkIP b) = Some dv" "0 \<le> dv"
      and dj: "igraph_get_shortest_paths_dijkstra e (graph topo) (edgeWeights topo) sv dv = (r, vs)"
      and ok: "fst (topology_computePath e topo a b) \<noteq> None"
  shows "igraph_vs_1 e dv = IGRAPH_SUCCESS \<and> igraph_vector_ptr_init e = IGRAPH_SUCCESS \<and>
         igraph_vector_init e = IGRAPH_SUCCESS \<and> r = IGRAPH_SUCCESS \<and>
         spec_path_resolves e (graph topo) vs"
proof -
  have i1: "igraph_vs_1 e dv = IGRAPH_SUCCESS"
  proof (rule ccontr)
    assume "igraph_vs_1 e dv \<noteq> IGRAPH_SUCCESS"
    with att have "fst (topology_computePath e topo a b) = None"
      by (simp add: topology_computePath_def topology_getConnectedVertexIndex_def)
    with ok show False by simp
  qed
  have i2: "igraph_vector_ptr_init e = IGRAPH_SUCCESS"
  proof (rule ccontr)
    assume "igraph_vector_ptr_init e \<noteq> IGRAPH_SUCCESS"
    with att i1 have "fst (topology_computePath e topo a b) = None"
      by (simp add: topology_computePath_def topology_getConnectedVertexIndex_def)
    with ok show False by simp
  qed
  have i3: "igraph_vector_init e = IGRAPH_SUCCESS"
  proof (rule ccontr)
    assume "igraph_vector_init e \<noteq> IGRAPH_SUCCESS"
    with att i1 i2 have "fst (topology_computePath e topo a b) = None"
      by (simp add: topology_computePath_def topology_getConnectedVertexIndex_def)
    with ok show False by simp
  qed
  have r: "r = IGRAPH_SUCCESS"
  proof (rule ccontr)
    assume "r \<noteq> IGRAPH_SUCCESS"
    from computePath_dijkstra_fails [OF att i1 i2 i3 dj this] ok show False by simp
  qed
  have "spec_path_resolves e (graph topo) vs"
  proof (rule ccontr)
    assume "\<not> spec_path_resolves e (graph topo) vs"
    from computePath_eid_fails [OF att i1 i2 i3 dj [unfolded r] this] ok show False by simp
  qed
  with i1 i2 i3 r show ?thesis by simp
qed

lemmas scenario_defs =
  scenario_topo_def scenario_env_def scenario_graph_def h1_def h2_def h3_def

lemmas query_defs =
  topology_getLatency_def topology_getReliability_def topology_isRoutable_def
  topology_getPathEntry_def topology_getPathFromCache_def topology_computePath_def
  topology_getConnectedVertexIndex_def topology_storePathInCache_def
  g_mutex_lock_def g_mutex_unlock_def IGRAPH_SUCCESS_def path_new_def

section \<open>The claims\<close>

subsection \<open>C1: the path formula\<close>

text \<open>
  Claim C1, as the code has it. Take a query between two attached addresses that is
  not answered from the cache and succeeds, and the vertex sequence \<open>vs\<close> that Dijkstra
  returns for it. The reliability of the query is (1 - packet loss of the source
  vertex) times the product of (1 - packet loss) over the edges of \<open>vs\<close> times
  (1 - packet loss of the destination vertex). The latency is the sum of the latencies
  of the edges of \<open>vs\<close> when \<open>vs\<close> has at least two vertices, and 1 when it has fewer.
\<close>

theorem query_formula:
  assumes miss: "topology_getPathFromCache topo src dst = None"
      and src: "attached_at topo src sv" and dst: "attached_at topo dst dv"
      and dj: "igraph_get_shortest_paths_dijkstra e (graph topo) (edgeWeights topo) sv dv = (r, vs)"
      and ok: "fst (topology_getPathEntry e topo src dst) \<noteq> None"
  shows "fst (topology_getReliability e topo src dst) = spec_reliability e (graph topo) sv dv vs \<and>
         fst (topology_getLatency e topo src dst) =
           (if length vs < 2 then 1 else spec_latency e (graph topo) vs)"
proof -
  have att: "virtualIP topo (address_toNetworkIP src) = Some sv" "0 \<le> sv"
      "virtualIP topo (address_toNetworkIP dst) = Some dv" "0 \<le> dv"
    using src dst by (simp_all add: attached_at_def)
  have ok': "fst (topology_computePath e topo src dst) \<noteq> None"
    using ok miss by (auto simp: topology_getPathEntry_def split: prod.splits option.splits)
  from computePath_Some_cases [OF att dj ok']
  have i: "igraph_vs_1 e dv = IGRAPH_SUCCESS" "igraph_vector_ptr_init e = IGRAPH_SUCCESS"
         "igraph_vector_init e = IGRAPH_SUCCESS" and r: "r = IGRAPH_SUCCESS"
         and res: "spec_path_resolves e (graph topo) vs" by simp_all
  note dj' = dj [unfolded r]
  show ?thesis
  proof (cases "length vs < 2")
    case True
    have edges: "spec_path_edges e (graph topo) vs = []"
      using True by (cases vs; cases "tl vs") (auto simp: spec_path_edges_def)
    show ?thesis
      using True miss computePath_short [OF att i dj' True]
      by (simp add: topology_getLatency_def topology_getReliability_def topology_getPathEntry_def
          path_new_def spec_reliability_def edges)
  next
    case False
    then have len: "2 \<le> length vs" by simp
    show ?thesis
      using len miss computePath_long [OF att i dj' len res]
      by (simp add: topology_getLatency_def topology_getReliability_def topology_getPathEntry_def
          path_new_def)
  qed
qed

text \<open>
  Scenario 2 of the specification: from \<open>h1\<close> at \<open>A\<close> to \<open>h2\<close> at \<open>B\<close> the reliability is
  \<open>0.9 * 0.95 * 0.8 = 0.684\<close> and the latency is 10.
\<close>

theorem query_formula_witness:
  "topology_getPathFromCache scenario_topo h1 h2 = None \<and>
   attached_at scenario_topo h1 0 \<and> attached_at scenario_topo h2 1 \<and>
   igraph_get_shortest_paths_dijkstra scenario_env (graph scenario_topo)
     (edgeWeights scenario_topo) 0 1 = (IGRAPH_SUCCESS, [0, 1]) \<and>
   fst (topology_getPathEntry scenario_env scenario_topo h1 h2) \<noteq> None \<and>
   fst (topology_getReliability scenario_env scenario_topo h1 h2) = 684 / 1000 \<and>
   fst (topology_getLatency scenario_env scenario_topo h1 h2) = 10"
proof -
  have 1: "topology_getPathFromCache scenario_topo h1 h2 = None"
    by (simp add: scenario_defs topology_getPathFromCache_def)
  have 2: "attached_at scenario_topo h1 0" "attached_at scenario_topo h2 1"
    by (simp_all add: scenario_defs attached_at_def)
  have 3: "igraph_get_shortest_paths_dijkstra scenario_env (graph scenario_topo)
      (edgeWeights scenario_topo) 0 1 = (IGRAPH_SUCCESS, [0, 1])"
    by (simp add: scenario_defs IGRAPH_SUCCESS_def)
  have 4: "fst (topology_getPathEntry scenario_env scenario_topo h1 h2) \<noteq> None"
    by (simp add: scenario_defs query_defs)
  have 5: "spec_reliability scenario_env (graph scenario_topo) 0 1 [0, 1] = 684 / 1000"
    by (simp add: scenario_defs spec_reliability_def spec_path_edges_def)
  have 6: "spec_latency scenario_env (graph scenario_topo) [0, 1] = 10"
    by (simp add: scenario_defs spec_latency_def spec_path_edges_def)
  from query_formula [OF 1 2 3 4] 1 2 3 4 5 6 show ?thesis by simp
qed

text \<open>
  The claim as it is written fails for a query from \<open>h1\<close> to itself: the query succeeds,
  the path that Dijkstra returns has no edge, so the sum of its edge latencies is 0,
  and the latency returned is 1.
\<close>

theorem query_formula_counterexample:
  "attached_at scenario_topo h1 0 \<and>
   igraph_get_shortest_paths_dijkstra scenario_env (graph scenario_topo)
     (edgeWeights scenario_topo) 0 0 = (IGRAPH_SUCCESS, [0]) \<and>
   fst (topology_getPathEntry scenario_env scenario_topo h1 h1) \<noteq> None \<and>
   fst (topology_getLatency scenario_env scenario_topo h1 h1) = 1 \<and>
   spec_latency scenario_env (graph scenario_topo) [0] = 0"
  by (simp add: scenario_defs query_defs attached_at_def spec_latency_def spec_path_edges_def)

subsection \<open>C2: queries inside one vertex\<close>

lemma lossy_topo_simps:
  "virtualIP lossy_topo = virtualIP scenario_topo" "pathCache lossy_topo = None"
  "edgeWeights lossy_topo = edgeWeights scenario_topo"
  "VAN (graph lossy_topo) name v = 1" "igraph_vcount (graph lossy_topo) = 2"
  by (simp_all add: lossy_topo_def scenario_defs)

text \<open>
  Claim C2, as the code has it. Take two addresses attached to the same vertex \<open>v\<close> (or
  one address twice), a query between them that is not answered from the cache, in
  which the graph primitives succeed and Dijkstra returns fewer than two vertices (one
  vertex, or none for a path to self). The latency of the query is exactly 1 and its
  reliability is \<open>(1 - ploss v) * (1 - ploss v)\<close>. That value lies in \<open>(0,1]\<close> when the
  packet loss of \<open>v\<close> lies in \<open>[0,1)\<close>.
\<close>

theorem same_vertex_query:
  assumes miss: "topology_getPathFromCache topo a b = None"
      and a: "attached_at topo a v" and b: "attached_at topo b v"
      and i: "igraph_vs_1 e v = IGRAPH_SUCCESS" "igraph_vector_ptr_init e = IGRAPH_SUCCESS"
             "igraph_vector_init e = IGRAPH_SUCCESS"
      and dj: "igraph_get_shortest_paths_dijkstra e (graph topo) (edgeWeights topo) v v
                 = (IGRAPH_SUCCESS, vs)"
      and len: "length vs < 2"
  shows "fst (topology_getLatency e topo a b) = 1 \<and>
         fst (topology_getReliability e topo a b) =
           (1 - VAN (graph topo) ''packetloss'' v) * (1 - VAN (graph topo) ''packetloss'' v) \<and>
         (0 \<le> VAN (graph topo) ''packetloss'' v \<and> VAN (graph topo) ''packetloss'' v < 1 \<longrightarrow>
            0 < fst (topology_getReliability e topo a b) \<and>
            fst (topology_getReliability e topo a b) \<le> 1)"
proof -
  have att: "virtualIP topo (address_toNetworkIP a) = Some v" "0 \<le> v"
      "virtualIP topo (address_toNetworkIP b) = Some v" "0 \<le> v"
    using a b by (simp_all add: attached_at_def)
  note cp = computePath_short [OF att i dj len]
  have lat: "fst (topology_getLatency e topo a b) = 1"
    using miss cp by (simp add: topology_getLatency_def topology_getPathEntry_def path_new_def)
  have rel: "fst (topology_getReliability e topo a b) =
           (1 - VAN (graph topo) ''packetloss'' v) * (1 - VAN (graph topo) ''packetloss'' v)"
    using miss cp by (simp add: topology_getReliability_def topology_getPathEntry_def path_new_def)
  have rng: "0 < (1 - x) * (1 - x) \<and> (1 - x) * (1 - x) \<le> 1" if "0 \<le> x" "x < 1" for x :: real
  proof -
    from that have "0 < 1 - x" "1 - x \<le> 1" by simp_all
    then show ?thesis by (simp add: mult_le_one)
  qed
  from lat rel rng show ?thesis by simp
qed

theorem same_vertex_query_witness:
  "topology_getPathFromCache scenario_topo h1 h1 = None \<and>
   attached_at scenario_topo h1 0 \<and>
   igraph_get_shortest_paths_dijkstra scenario_env (graph scenario_topo)
     (edgeWeights scenario_topo) 0 0 = (IGRAPH_SUCCESS, [0]) \<and>
   fst (topology_getLatency scenario_env scenario_topo h1 h1) = 1 \<and>
   fst (topology_getReliability scenario_env scenario_topo h1 h1) = 81 / 100 \<and>
   0 < fst (topology_getReliability scenario_env scenario_topo h1 h1) \<and>
   fst (topology_getReliability scenario_env scenario_topo h1 h1) \<le> 1"
proof -
  have 1: "topology_getPathFromCache scenario_topo h1 h1 = None"
    by (simp add: scenario_defs topology_getPathFromCache_def)
  have 2: "attached_at scenario_topo h1 0"
    by (simp add: scenario_defs attached_at_def)
  have 3: "igraph_vs_1 scenario_env 0 = IGRAPH_SUCCESS"
    "igraph_vector_ptr_init scenario_env = IGRAPH_SUCCESS"
    "igraph_vector_init scenario_env = IGRAPH_SUCCESS"
    by (simp_all add: scenario_defs IGRAPH_SUCCESS_def)
  have 4: "igraph_get_shortest_paths_dijkstra scenario_env (graph scenario_topo)
      (edgeWeights scenario_topo) 0 0 = (IGRAPH_SUCCESS, [0])"
    by (simp add: scenario_defs IGRAPH_SUCCESS_def)
  have 5: "length [0::int] < 2" by simp
  have 6: "VAN (graph scenario_topo) ''packetloss'' 0 = 1 / 10"
    by (simp add: scenario_defs)
  from same_vertex_query [OF 1 2 2 3 4 5] 1 2 4 6 show ?thesis by simp
qed

text \<open>
  The claim as it is written fails where the vertex has packet loss 1, which the schema
  of the graph allows: the reliability of the query from \<open>h1\<close> to itself is 0, outside
  \<open>(0,1]\<close>.
\<close>

theorem same_vertex_query_counterexample:
  "attached_at lossy_topo h1 0 \<and>
   fst (topology_getLatency scenario_env lossy_topo h1 h1) = 1 \<and>
   fst (topology_getReliability scenario_env lossy_topo h1 h1) = 0 \<and>
   \<not> 0 < fst (topology_getReliability scenario_env lossy_topo h1 h1)"
  by (simp add: query_defs attached_at_def lossy_topo_simps scenario_defs)

subsection \<open>C3: loading a graph that is not strongly connected\<close>

lemma checkGraphProperties_rejects:
  assumes "igraph_is_connected e (graph topo) = (r1, conn)"
      and "igraph_clusters e (graph topo) = (r2, cc)"
      and "\<not> conn \<or> 1 < cc"
  shows "fst (topology_checkGraphProperties e topo) = False"
  using assms by (auto simp: topology_checkGraphProperties_def Let_def split_beta)

lemma checkGraphProperties_accepts:
  assumes "igraph_is_connected e (graph topo) = (IGRAPH_SUCCESS, True)"
      and "igraph_clusters e (graph topo) = (IGRAPH_SUCCESS, 1)"
      and "fst (igraph_cattribute_list e (graph topo)) = IGRAPH_SUCCESS"
  shows "fst (topology_checkGraphProperties e topo) = True"
  using assms by (simp add: topology_checkGraphProperties_def Let_def split_beta)

lemma checkGraph_rejects:
  assumes "fst (topology_checkGraphProperties e topo) = False"
  shows "fst (topology_checkGraph e topo) = False"
  using assms by (simp add: topology_checkGraph_def split_beta)

lemma topology_new_rejects:
  assumes f: "fopen e path = Some file"
      and rd: "igraph_read_graph_graphml e file = (IGRAPH_SUCCESS, g)"
      and ic: "igraph_is_connected e g = (r1, conn)"
      and cl: "igraph_clusters e g = (r2, cc)"
      and nc: "\<not> conn \<or> 1 < cc"
  shows "fst (topology_new e path) = None \<and>
         last (snd (topology_new e path)) =
           message ''path cache cleared, spent %f seconds computing shortest paths''"
proof -
  let ?t = "g_new0_Topology\<lparr>graphPath := path, virtualIP := Map.empty\<rparr>"
  have ld: "topology_loadGraph e ?t = (True, ?t\<lparr>graph := g\<rparr>,
              [info ''reading graphml topology graph at %s'',
               info ''successfully read graphml topology graph at %s''])"
    using f rd by (simp add: topology_loadGraph_def)
  have "fst (topology_checkGraphProperties e (?t\<lparr>graph := g\<rparr>)) = False"
  proof (rule checkGraphProperties_rejects [OF _ _ nc])
    show "igraph_is_connected e (graph (?t\<lparr>graph := g\<rparr>)) = (r1, conn)" using ic by simp
    show "igraph_clusters e (graph (?t\<lparr>graph := g\<rparr>)) = (r2, cc)" using cl by simp
  qed
  then have "fst (topology_checkGraph e (?t\<lparr>graph := g\<rparr>)) = False"
    by (rule checkGraph_rejects)
  with ld show ?thesis
    by (simp add: topology_new_def Let_def split_beta topology_free_def topology_clearCache_def)
qed

text \<open>
  Claim C3. When \<open>igraph_is_connected\<close> reports that the graph is not strongly connected
  or \<open>igraph_clusters\<close> counts more than one strong cluster, the check of the graph
  properties returns \<open>FALSE\<close>, and \<open>topology_new\<close> on a file that holds this graph
  returns \<open>NULL\<close>, after \<open>topology_free\<close> has run: the last log line is the one that
  \<open>topology_free\<close> prints when it clears the cache. A graph that is strongly connected
  with one cluster, whose attributes can be listed, passes the check.
\<close>

theorem load_rejects_not_strongly_connected:
  assumes ic: "igraph_is_connected e g = (r1, conn)"
      and cl: "igraph_clusters e g = (r2, cc)"
      and nc: "\<not> conn \<or> 1 < cc"
  shows "(graph topo = g \<longrightarrow> fst (topology_checkGraphProperties e topo) = False) \<and>
         (fopen e path = Some file \<and> igraph_read_graph_graphml e file = (IGRAPH_SUCCESS, g) \<longrightarrow>
            fst (topology_new e path) = None \<and>
            last (snd (topology_new e path)) =
              message ''path cache cleared, spent %f seconds computing shortest paths'') \<and>
         (igraph_is_connected e' (graph topo') = (IGRAPH_SUCCESS, True) \<and>
          igraph_clusters e' (graph topo') = (IGRAPH_SUCCESS, 1) \<and>
          fst (igraph_cattribute_list e' (graph topo')) = IGRAPH_SUCCESS \<longrightarrow>
            fst (topology_checkGraphProperties e' topo') = True)"
proof (intro conjI impI)
  assume "graph topo = g"
  with ic cl nc show "fst (topology_checkGraphProperties e topo) = False"
    using checkGraphProperties_rejects [of e topo r1 conn r2 cc] by simp
next
  assume "fopen e path = Some file \<and> igraph_read_graph_graphml e file = (IGRAPH_SUCCESS, g)"
  then have "fopen e path = Some file" "igraph_read_graph_graphml e file = (IGRAPH_SUCCESS, g)"
    by simp_all
  from topology_new_rejects [OF this ic cl nc]
  show "fst (topology_new e path) = None" by simp
next
  assume "fopen e path = Some file \<and> igraph_read_graph_graphml e file = (IGRAPH_SUCCESS, g)"
  then have "fopen e path = Some file" "igraph_read_graph_graphml e file = (IGRAPH_SUCCESS, g)"
    by simp_all
  from topology_new_rejects [OF this ic cl nc]
  show "last (snd (topology_new e path)) =
              message ''path cache cleared, spent %f seconds computing shortest paths''"
    by simp
next
  assume "igraph_is_connected e' (graph topo') = (IGRAPH_SUCCESS, True) \<and>
          igraph_clusters e' (graph topo') = (IGRAPH_SUCCESS, 1) \<and>
          fst (igraph_cattribute_list e' (graph topo')) = IGRAPH_SUCCESS"
  then show "fst (topology_checkGraphProperties e' topo') = True"
    using checkGraphProperties_accepts [of e' topo'] by simp
qed

theorem load_rejects_not_strongly_connected_witness:
  "igraph_is_connected disconnected_env scenario_graph = (0, False) \<and>
   igraph_clusters disconnected_env scenario_graph = (0, 2) \<and>
   graph scenario_topo = scenario_graph \<and>
   fst (topology_checkGraphProperties disconnected_env scenario_topo) = False \<and>
   fopen disconnected_env ''topology.graphml'' = Some [] \<and>
   igraph_read_graph_graphml disconnected_env [] = (IGRAPH_SUCCESS, scenario_graph) \<and>
   fst (topology_new disconnected_env ''topology.graphml'') = None \<and>
   igraph_is_connected scenario_env (graph scenario_topo) = (IGRAPH_SUCCESS, True) \<and>
   igraph_clusters scenario_env (graph scenario_topo) = (IGRAPH_SUCCESS, 1) \<and>
   fst (igraph_cattribute_list scenario_env (graph scenario_topo)) = IGRAPH_SUCCESS \<and>
   fst (topology_checkGraphProperties scenario_env scenario_topo) = True"
proof -
  have 1: "igraph_is_connected disconnected_env scenario_graph = (0, False)"
    "igraph_clusters disconnected_env scenario_graph = (0, 2)"
    by (simp_all add: disconnected_env_def scenario_env_def)
  have 2: "\<not> False \<or> (1::int) < 2" by simp
  have 3: "graph scenario_topo = scenario_graph" by (simp add: scenario_topo_def)
  have 4: "fopen disconnected_env ''topology.graphml'' = Some []"
    "igraph_read_graph_graphml disconnected_env [] = (IGRAPH_SUCCESS, scenario_graph)"
    by (simp_all add: disconnected_env_def scenario_env_def IGRAPH_SUCCESS_def)
  have 5: "igraph_is_connected scenario_env (graph scenario_topo) = (IGRAPH_SUCCESS, True)"
    "igraph_clusters scenario_env (graph scenario_topo) = (IGRAPH_SUCCESS, 1)"
    "fst (igraph_cattribute_list scenario_env (graph scenario_topo)) = IGRAPH_SUCCESS"
    by (simp_all add: scenario_env_def IGRAPH_SUCCESS_def)
  from load_rejects_not_strongly_connected [OF 1 2, of scenario_topo "''topology.graphml''" "[]"
      scenario_env scenario_topo] 1 3 4 5
  show ?thesis by simp
qed

subsection \<open>C4: queries on addresses that are not attached\<close>

text \<open>
  Claim C4, as the code has it. When the source or the destination of a query is not
  in the \<open>virtualIP\<close> table and the cache holds no path for the pair of IDs,
  \<open>topology_getLatency\<close> and \<open>topology_getReliability\<close> return -1 and
  \<open>topology_isRoutable\<close> returns false; each call logs the warning of
  \<open>_topology_getConnectedVertexIndex\<close> and returns the topology as it was, so nothing is
  put into the cache. The calls return: the three functions have no outcome other than
  a value.
\<close>

theorem unattached_query:
  assumes un: "virtualIP topo (address_toNetworkIP src) = None \<or>
               virtualIP topo (address_toNetworkIP dst) = None"
      and miss: "topology_getPathFromCache topo src dst = None"
  shows "fst (topology_getLatency e topo src dst) = - 1 \<and>
         fst (topology_getReliability e topo src dst) = - 1 \<and>
         fst (topology_isRoutable e topo src dst) = False \<and>
         fst (snd (topology_getLatency e topo src dst)) = topo \<and>
         fst (snd (topology_getReliability e topo src dst)) = topo \<and>
         fst (snd (topology_isRoutable e topo src dst)) = topo \<and>
         warning ''address %s is not connected to the topology''
           \<in> set (snd (snd (topology_getLatency e topo src dst))) \<and>
         warning ''address %s is not connected to the topology''
           \<in> set (snd (snd (topology_getReliability e topo src dst))) \<and>
         warning ''address %s is not connected to the topology''
           \<in> set (snd (snd (topology_isRoutable e topo src dst)))"
proof -
  from computePath_unattached [OF un] obtain lg where
    cp: "topology_computePath e topo src dst = (None, topo, lg)"
    and w: "warning ''address %s is not connected to the topology'' \<in> set lg"
    by blast
  have pe: "topology_getPathEntry e topo src dst = (None, topo, lg)"
    using miss cp by (simp add: topology_getPathEntry_def)
  show ?thesis
    using pe w
    by (simp add: topology_getLatency_def topology_getReliability_def topology_isRoutable_def)
qed

theorem unattached_query_witness:
  "(virtualIP scenario_topo (address_toNetworkIP h1) = None \<or>
    virtualIP scenario_topo (address_toNetworkIP h3) = None) \<and>
   topology_getPathFromCache scenario_topo h1 h3 = None \<and>
   fst (topology_getLatency scenario_env scenario_topo h1 h3) = - 1 \<and>
   fst (topology_isRoutable scenario_env scenario_topo h1 h3) = False \<and>
   pathCache (fst (snd (topology_getLatency scenario_env scenario_topo h1 h3))) = None"
proof -
  have 1: "virtualIP scenario_topo (address_toNetworkIP h1) = None \<or>
    virtualIP scenario_topo (address_toNetworkIP h3) = None"
    by (simp add: scenario_defs)
  have 2: "topology_getPathFromCache scenario_topo h1 h3 = None"
    by (simp add: scenario_defs topology_getPathFromCache_def)
  have 3: "pathCache scenario_topo = None" by (simp add: scenario_defs)
  from unattached_query [OF 1 2, of scenario_env] 1 2 3 show ?thesis by simp
qed

text \<open>
  The claim as it is written fails after a detach. The query from \<open>h1\<close> to \<open>h2\<close> is
  computed and cached, then \<open>h2\<close> is detached: the cache is looked up first, so the same
  query still returns latency 10 and reliability 0.684, and logs nothing.
\<close>

theorem unattached_query_counterexample:
  "virtualIP stale_topo (address_toNetworkIP h2) = None \<and>
   fst (topology_getLatency scenario_env stale_topo h1 h2) = 10 \<and>
   fst (topology_getReliability scenario_env stale_topo h1 h2) = 684 / 1000 \<and>
   fst (topology_isRoutable scenario_env stale_topo h1 h2) = True \<and>
   snd (snd (topology_getLatency scenario_env stale_topo h1 h2)) = []"
  by (simp add: stale_topo_def queried_topo_def topology_disconnect_def query_defs scenario_defs)

subsection \<open>C5: the path cache\<close>

lemma getPathFromCache_store_same:
  "topology_getPathFromCache (topology_storePathInCache topo a b p) a b = Some p"
  by (simp add: topology_getPathFromCache_def topology_storePathInCache_def Let_def)

lemma getPathFromCache_store_other:
  assumes "address_getID c \<noteq> address_getID a \<or> address_getID d \<noteq> address_getID b"
  shows "topology_getPathFromCache (topology_storePathInCache topo c d q) a b =
         topology_getPathFromCache topo a b"
  using assms
  by (auto simp: topology_getPathFromCache_def topology_storePathInCache_def Let_def
      split: option.splits)

lemma getPathFromCache_cong:
  "pathCache t = pathCache t' \<Longrightarrow>
   topology_getPathFromCache t a b = topology_getPathFromCache t' a b"
  by (simp add: topology_getPathFromCache_def)

lemma getPathFromCache_ids:
  "address_getID c = address_getID a \<Longrightarrow> address_getID d = address_getID b \<Longrightarrow>
   topology_getPathFromCache t c d = topology_getPathFromCache t a b"
  by (simp add: topology_getPathFromCache_def cong: option.case_cong)

lemma getPathEntry_hit:
  "topology_getPathFromCache topo a b = Some p \<Longrightarrow>
   topology_getPathEntry e topo a b = (Some p, topo, [])"
  by (simp add: topology_getPathEntry_def)

lemma getPathEntry_preserves_hit:
  assumes hit: "topology_getPathFromCache topo a b = Some p"
  shows "topology_getPathFromCache (fst (snd (topology_getPathEntry e topo c d))) a b = Some p"
proof (cases "topology_getPathFromCache topo c d")
  case (Some q)
  then show ?thesis using hit by (simp add: topology_getPathEntry_def)
next
  case None
  have ids: "address_getID c \<noteq> address_getID a \<or> address_getID d \<noteq> address_getID b"
    using None hit getPathFromCache_ids [of c a d b topo] by auto
  obtain r topo' lg where cp: "topology_computePath e topo c d = (r, topo', lg)"
    by (cases "topology_computePath e topo c d") auto
  have pc: "pathCache topo' = pathCache topo"
    using computePath_pathCache [of e topo c d] cp by simp
  have keep: "topology_getPathFromCache topo' a b = Some p"
    using getPathFromCache_cong [OF pc, of a b] hit by simp
  show ?thesis
  proof (cases r)
    case None
    with \<open>topology_getPathFromCache topo c d = None\<close> cp keep show ?thesis
      by (simp add: topology_getPathEntry_def)
  next
    case (Some q)
    with \<open>topology_getPathFromCache topo c d = None\<close> cp keep
      getPathFromCache_store_other [OF ids, of topo' q]
    show ?thesis by (simp add: topology_getPathEntry_def)
  qed
qed

lemma run_queries_preserves_hit:
  "topology_getPathFromCache topo a b = Some p \<Longrightarrow>
   topology_getPathFromCache (run_queries topo qs) a b = Some p"
proof (induction qs arbitrary: topo)
  case Nil
  then show ?case by simp
next
  case (Cons q qs)
  obtain e c d where q: "q = (e, c, d)" by (cases q) auto
  from Cons.prems have "topology_getPathFromCache
      (fst (snd (topology_getPathEntry e topo c d))) a b = Some p"
    by (rule getPathEntry_preserves_hit)
  from Cons.IH [OF this] show ?case by (simp add: q)
qed

lemma queried_topo_eq:
  "topology_getPathEntry scenario_env scenario_topo h1 h2 =
     (Some \<lparr>path_getLatency = 10, path_getReliability = 684 / 1000\<rparr>, queried_topo,
      [debug ''computing shortest path between vertex %li (%s) and vertex %li (%s)'',
       debug ''shortest path %s-->%s is %f ms with %f loss, path: %s''])"
  by (simp add: queried_topo_def scenario_defs query_defs debug_def)

text \<open>
  Claim C5. Take a first query for \<open>(a, b)\<close> that misses the cache and computes the path
  \<open>p\<close>, leaving the topology \<open>topo1\<close>. Then \<open>p\<close> is in the cache of \<open>topo1\<close> under the IDs of
  \<open>a\<close> and \<open>b\<close>; every later query for \<open>(a, b)\<close>, in any environment \<open>e'\<close>, returns \<open>p\<close>
  (its latency, its reliability), leaves the topology as it is and logs nothing, so it
  computes nothing; and this stays so after any sequence \<open>qs\<close> of other queries. The
  lookup after an insert returns the inserted path (\<open>getPathFromCache_store_same\<close>).
\<close>

theorem cache_coherence:
  assumes miss: "topology_getPathFromCache topo a b = None"
      and first: "topology_getPathEntry e topo a b = (Some p, topo1, lg)"
  shows "topology_getPathFromCache topo1 a b = Some p \<and>
         topology_getPathEntry e' topo1 a b = (Some p, topo1, []) \<and>
         topology_getLatency e' topo1 a b = (path_getLatency p, topo1, []) \<and>
         topology_getReliability e' topo1 a b = (path_getReliability p, topo1, []) \<and>
         topology_getPathFromCache (run_queries topo1 qs) a b = Some p \<and>
         topology_getPathEntry e' (run_queries topo1 qs) a b = (Some p, run_queries topo1 qs, [])"
proof -
  obtain r topo' lg' where cp: "topology_computePath e topo a b = (r, topo', lg')"
    by (cases "topology_computePath e topo a b") auto
  from first miss cp have r: "r = Some p" and t1: "topo1 = topology_storePathInCache topo' a b p"
    by (auto simp: topology_getPathEntry_def split: option.splits)
  have hit: "topology_getPathFromCache topo1 a b = Some p"
    unfolding t1 by (rule getPathFromCache_store_same)
  have hit': "topology_getPathFromCache (run_queries topo1 qs) a b = Some p"
    using hit by (rule run_queries_preserves_hit)
  show ?thesis
    using hit hit' getPathEntry_hit [OF hit, of e'] getPathEntry_hit [OF hit', of e']
    by (simp add: topology_getLatency_def topology_getReliability_def)
qed

theorem cache_coherence_witness:
  "topology_getPathFromCache scenario_topo h1 h2 = None \<and>
   fst (topology_getPathEntry scenario_env scenario_topo h1 h2) =
     Some \<lparr>path_getLatency = 10, path_getReliability = 684 / 1000\<rparr> \<and>
   topology_getLatency dijkstra_failing_env queried_topo h1 h2 = (10, queried_topo, []) \<and>
   topology_getReliability dijkstra_failing_env queried_topo h1 h2 = (684 / 1000, queried_topo, []) \<and>
   fst (topology_getPathEntry dijkstra_failing_env
          (run_queries queried_topo [(scenario_env, h2, h1), (scenario_env, h1, h1)]) h1 h2) =
     Some \<lparr>path_getLatency = 10, path_getReliability = 684 / 1000\<rparr>"
proof -
  have 1: "topology_getPathFromCache scenario_topo h1 h2 = None"
    by (simp add: scenario_defs topology_getPathFromCache_def)
  from cache_coherence [OF 1 queried_topo_eq, of dijkstra_failing_env
      "[(scenario_env, h2, h1), (scenario_env, h1, h1)]"] 1 queried_topo_eq
  show ?thesis by simp
qed

subsection \<open>C6: attaching with no candidate\<close>

lemma connect_unfold:
  "topology_connect e topo address u ih ch th =
     (let cs = connect_candidates e topo ih ch th in
      if cs = [] then Inl (Assertion_failed ''numCandidates > 0'')
      else
        (let p = (if 1 < length cs
                  then fst (connect_pop_loop (nat (c_round (real (length cs) * u))) cs NULL)
                  else fst (g_queue_pop_head cs))
         in if p = NULL then Inl (Assertion_failed ''vertexIndexPtr'')
            else
              (case mem_read e p of
                 None \<Rightarrow> Inl Segmentation_fault
               | Some vertexIndex \<Rightarrow>
                   if vertexIndex \<le> - 1 then
                     Inl (Assertion_failed ''vertexIndex > (igraph_integer_t) -1'')
                   else
                     Inr (topo\<lparr>graphLock := False,
                               virtualIP := (virtualIP topo)(address_toNetworkIP address \<mapsto> vertexIndex)\<rparr>,
                          guint64_of_real (VAN (graph topo) ''bandwidthdown'' vertexIndex),
                          guint64_of_real (VAN (graph topo) ''bandwidthup'' vertexIndex),
                          snd (snd (topology_iterateAllVertices e (g_mutex_lock topo)
                                 topology_connectHelperHook
                                 \<lparr>candidates = [], typeHint = th, geocodeHint = ch, ipHint = ih\<rparr>))
                          @ [info ''connected address %s to point of interest %s (%s, %s, %s)'']))))"
  by (simp add: topology_connect_def connect_candidates_def Let_def split_beta
      g_mutex_lock_def g_mutex_unlock_def not_less split: option.splits)

lemmas connect_eval =
  connect_candidates_def topology_iterateAllVertices_def topology_connectHelperHook_def
  g_mutex_lock_def g_mutex_unlock_def IGRAPH_SUCCESS_def GINT_TO_POINTER_def NULL_def
  g_queue_pop_head_def c_round_def

lemma nopoi_candidates: "connect_candidates scenario_env nopoi_topo None None None = []"
  by (simp add: connect_eval nopoi_topo_def scenario_defs)

text \<open>
  Claim C6, as the code has it. When no vertex of the graph is a candidate,
  \<open>topology_connect\<close> does not return: the assertion \<open>numCandidates > 0\<close> fails and the
  process ends there, for every address, random number and hint.
\<close>

theorem connect_without_candidate_aborts:
  assumes "connect_candidates e topo ipHint' clusterHint typeHint' = []"
  shows "topology_connect e topo address randomDouble ipHint' clusterHint typeHint' =
           Inl (Assertion_failed ''numCandidates > 0'')"
  using assms by (simp add: connect_unfold)

theorem connect_without_candidate_aborts_witness:
  "connect_candidates scenario_env nopoi_topo None None None = [] \<and>
   topology_connect scenario_env nopoi_topo h1 0 None None None =
     Inl (Assertion_failed ''numCandidates > 0'')"
  using connect_without_candidate_aborts [OF nopoi_candidates, of h1 0] nopoi_candidates
  by simp

text \<open>
  The claim as it is written asks for an error that is returned to the caller. On a
  graph without a point of interest the call does not return.
\<close>

theorem connect_without_candidate_counterexample:
  "connect_candidates scenario_env nopoi_topo None None None = [] \<and>
   isl (topology_connect scenario_env nopoi_topo h3 (1 / 2) None None None)"
  by (simp add: connect_unfold nopoi_candidates)

subsection \<open>C7: choosing a candidate\<close>

lemma connect_pop_loop_nth:
  "0 < n \<Longrightarrow> n \<le> length q \<Longrightarrow> fst (connect_pop_loop n q p) = q ! (n - 1)"
proof (induction n arbitrary: q p)
  case 0
  then show ?case by simp
next
  case (Suc n)
  then obtain x rest where q: "q = x # rest" by (cases q) auto
  show ?case
  proof (cases n)
    case 0
    then show ?thesis by (simp add: q g_queue_pop_head_def)
  next
    case (Suc m)
    with Suc.IH [of rest x] Suc.prems q show ?thesis
      by (simp add: g_queue_pop_head_def)
  qed
qed

lemma c_round_bounds:
  assumes "0 \<le> u" "u < 1"
  shows "0 \<le> c_round (real N * u) \<and> nat (c_round (real N * u)) \<le> N"
proof -
  have nn: "0 \<le> real N * u" using assms by simp
  have "real N * u + 1 / 2 < real N + 1"
    using assms by (cases "N = 0") (auto intro: le_less_trans [of _ "real N * 1 + 1/2"] mult_left_mono)
  then have "\<lfloor>real N * u + 1 / 2\<rfloor> \<le> int N"
    by (simp add: floor_le_iff)
  moreover have "0 \<le> \<lfloor>real N * u + 1 / 2\<rfloor>" using nn by simp
  ultimately show ?thesis using nn by (simp add: c_round_def)
qed

text \<open>
  What the selection does with more than one candidate and a random number in \<open>[0,1)\<close>:
  it selects nothing when \<open>N * u < 1/2\<close>, and the candidate number \<open>round(N * u)\<close>,
  counted from 1, otherwise.
\<close>

lemma connect_selection:
  assumes n: "1 < length cs" and u: "0 \<le> u" "u < 1"
  shows "fst (connect_pop_loop (nat (c_round (real (length cs) * u))) cs NULL) =
           (if real (length cs) * u < 1 / 2 then NULL
            else cs ! (nat (c_round (real (length cs) * u)) - 1))"
proof -
  let ?x = "real (length cs) * u"
  let ?n = "nat (c_round ?x)"
  have nn: "0 \<le> ?x" using u by simp
  have cr: "c_round ?x = \<lfloor>?x + 1 / 2\<rfloor>" using nn by (simp add: c_round_def)
  show ?thesis
  proof (cases "?x < 1 / 2")
    case True
    then have "\<lfloor>?x + 1 / 2\<rfloor> \<le> 0" by (simp add: floor_le_iff)
    then have "?n = 0" by (simp add: cr)
    with True show ?thesis by simp
  next
    case False
    then have "1 \<le> \<lfloor>?x + 1 / 2\<rfloor>" by (simp add: le_floor_iff)
    then have pos: "0 < ?n" by (simp add: cr)
    from c_round_bounds [OF u, of "length cs"] have "?n \<le> length cs" by simp
    from connect_pop_loop_nth [OF pos this] False show ?thesis by simp
  qed
qed

text \<open>
  Claim C7 fails on the code. With the two candidates of the scenario and the random
  number 0.1, \<open>round(2 * 0.1)\<close> is 0: the loop pops nothing, \<open>vertexIndexPtr\<close> is still
  \<open>NULL\<close> and the assertion after the selection fails. With the single candidate vertex
  0 the pointer popped is \<open>GINT_TO_POINTER(0)\<close>, which is \<open>NULL\<close>, and the same assertion
  fails.
\<close>

theorem connect_selection_fails:
  "connect_candidates scenario_env scenario_topo None None None =
     [GINT_TO_POINTER 0, GINT_TO_POINTER 1] \<and>
   nat (c_round (real 2 * (1 / 10))) = 0 \<and>
   topology_connect scenario_env scenario_topo h3 (1 / 10) None None None =
     Inl (Assertion_failed ''vertexIndexPtr'') \<and>
   connect_candidates scenario_env single_poi_topo None None None = [GINT_TO_POINTER 0] \<and>
   topology_connect scenario_env single_poi_topo h3 (1 / 10) None None None =
     Inl (Assertion_failed ''vertexIndexPtr'')"
  by (simp add: connect_unfold connect_eval scenario_defs single_poi_topo_def)

subsection \<open>C8: the range of a query\<close>

lemma prod_list_unit_interval:
  "(\<forall>x\<in>set xs. 0 \<le> x \<and> x \<le> 1) \<Longrightarrow> 0 \<le> prod_list xs \<and> prod_list xs \<le> (1::real)"
proof (induction xs)
  case Nil
  then show ?case by simp
next
  case (Cons x xs)
  then have "0 \<le> x" "x \<le> 1" "0 \<le> prod_list xs" "prod_list xs \<le> 1" by simp_all
  then show ?case by (simp add: mult_le_one)
qed

lemma path_edges_in_range:
  "eid_in_range e g \<Longrightarrow> edges_resolve e g u vs \<Longrightarrow>
   \<forall>ed\<in>set (path_edges e g u vs). 0 \<le> ed \<and> ed < igraph_ecount g"
proof (induction vs arbitrary: u)
  case Nil
  then show ?case by simp
next
  case (Cons v vs)
  from Cons.prems(2) have ok: "fst (igraph_get_eid e g u v) = IGRAPH_SUCCESS"
    and rest: "edges_resolve e g v vs" by simp_all
  from Cons.prems(1) ok
  have hd: "0 \<le> snd (igraph_get_eid e g u v) \<and> snd (igraph_get_eid e g u v) < igraph_ecount g"
    unfolding eid_in_range_def by blast
  from Cons.IH [OF Cons.prems(1) rest] hd show ?case by simp
qed

lemma spec_path_edges_in_range:
  assumes "eid_in_range e g" "spec_path_resolves e g vs"
  shows "\<forall>ed\<in>set (spec_path_edges e g vs). 0 \<le> ed \<and> ed < igraph_ecount g"
proof (cases vs)
  case Nil
  then show ?thesis by (simp add: spec_path_edges_def)
next
  case (Cons u rest)
  with assms path_edges_in_range [of e g u rest] show ?thesis
    by (simp add: spec_path_edges_def spec_path_resolves_def)
qed

lemma spec_latency_nonneg:
  assumes g: "graph_attributes_ok g" and er: "eid_in_range e g" and res: "spec_path_resolves e g vs"
  shows "0 \<le> spec_latency e g vs"
proof -
  have "0 \<le> EAN g ''latency'' ed" if "ed \<in> set (spec_path_edges e g vs)" for ed
  proof -
    from spec_path_edges_in_range [OF er res] that have "0 \<le> ed \<and> ed < igraph_ecount g"
      by blast
    with g have "0 < EAN g ''latency'' ed" by (simp add: graph_attributes_ok_def)
    then show ?thesis by simp
  qed
  then show ?thesis
    unfolding spec_latency_def by (intro sum_list_nonneg) auto
qed

lemma vertex_unit:
  assumes "graph_attributes_ok g" "0 \<le> v" "v < igraph_vcount g"
  shows "0 \<le> 1 - VAN g ''packetloss'' v \<and> 1 - VAN g ''packetloss'' v \<le> 1"
  using assms by (simp add: graph_attributes_ok_def)

lemma spec_reliability_unit:
  assumes g: "graph_attributes_ok g" and er: "eid_in_range e g" and res: "spec_path_resolves e g vs"
      and sv: "0 \<le> sv" "sv < igraph_vcount g" and dv: "0 \<le> dv" "dv < igraph_vcount g"
  shows "0 \<le> spec_reliability e g sv dv vs \<and> spec_reliability e g sv dv vs \<le> 1"
proof -
  let ?P = "prod_list (map (\<lambda>ed. 1 - EAN g ''packetloss'' ed) (spec_path_edges e g vs))"
  have "0 \<le> 1 - EAN g ''packetloss'' ed \<and> 1 - EAN g ''packetloss'' ed \<le> 1"
    if "ed \<in> set (spec_path_edges e g vs)" for ed
  proof -
    from spec_path_edges_in_range [OF er res] that have "0 \<le> ed \<and> ed < igraph_ecount g"
      by blast
    with g show ?thesis by (simp add: graph_attributes_ok_def)
  qed
  then have "\<forall>x\<in>set (map (\<lambda>ed. 1 - EAN g ''packetloss'' ed) (spec_path_edges e g vs)).
      0 \<le> x \<and> x \<le> 1"
    by auto
  from prod_list_unit_interval [OF this] have P: "0 \<le> ?P" "?P \<le> 1" by simp_all
  from vertex_unit [OF g sv] have s: "0 \<le> 1 - VAN g ''packetloss'' sv" "1 - VAN g ''packetloss'' sv \<le> 1"
    by simp_all
  from vertex_unit [OF g dv] have d: "0 \<le> 1 - VAN g ''packetloss'' dv" "1 - VAN g ''packetloss'' dv \<le> 1"
    by simp_all
  have 1: "0 \<le> (1 - VAN g ''packetloss'' sv) * ?P" "(1 - VAN g ''packetloss'' sv) * ?P \<le> 1"
    using s P by (simp_all add: mult_le_one)
  have "0 \<le> (1 - VAN g ''packetloss'' sv) * ?P * (1 - VAN g ''packetloss'' dv)"
       "(1 - VAN g ''packetloss'' sv) * ?P * (1 - VAN g ''packetloss'' dv) \<le> 1"
    using 1 d by (simp_all add: mult_le_one)
  then show ?thesis by (simp add: spec_reliability_def)
qed

lemma cache_in_range_lookup:
  "cache_in_range topo \<Longrightarrow> topology_getPathFromCache topo a b = Some p \<Longrightarrow> path_in_range p"
  by (auto simp: cache_in_range_def topology_getPathFromCache_def split: option.splits)

lemma cache_in_range_store:
  assumes "cache_in_range topo" "path_in_range p" "pathCache topo' = pathCache topo"
  shows "cache_in_range (topology_storePathInCache topo' a b p)"
  unfolding cache_in_range_def
proof (intro allI impI)
  fix cache s sourceCache d q
  assume c: "pathCache (topology_storePathInCache topo' a b p) = Some cache"
    and s: "cache s = Some sourceCache" and d: "sourceCache d = Some q"
  show "path_in_range q"
  proof (cases "s = address_getID a \<and> d = address_getID b")
    case True
    with c s d have "q = p"
      by (auto simp: topology_storePathInCache_def Let_def)
    with assms(2) show ?thesis by simp
  next
    case False
    define x where "x = \<lparr>address_getID = s, address_toNetworkIP = 0\<rparr>"
    define y where "y = \<lparr>address_getID = d, address_toNetworkIP = 0\<rparr>"
    have "topology_getPathFromCache (topology_storePathInCache topo' a b p) x y = Some q"
      using c s d by (simp add: topology_getPathFromCache_def x_def y_def)
    moreover have "address_getID a \<noteq> address_getID x \<or> address_getID b \<noteq> address_getID y"
      using False by (auto simp: x_def y_def)
    ultimately have "topology_getPathFromCache topo' x y = Some q"
      using getPathFromCache_store_other [of a x b y topo' p] by simp
    then have "topology_getPathFromCache topo x y = Some q"
      using getPathFromCache_cong [OF assms(3), of x y] by simp
    with assms(1) show ?thesis by (rule cache_in_range_lookup)
  qed
qed

lemma scenario_graph_ok: "graph_attributes_ok (graph scenario_topo)"
  by (simp add: graph_attributes_ok_def scenario_defs)

lemma scenario_eid_in_range: "eid_in_range scenario_env (graph scenario_topo)"
  by (simp add: eid_in_range_def scenario_defs IGRAPH_SUCCESS_def)

text \<open>
  The cache of a new topology is empty, and attaching and detaching do not touch it: the
  paths in the cache are those that queries have put there.
\<close>

lemma loadGraph_pathCache:
  "pathCache (fst (snd (topology_loadGraph e topo))) = pathCache topo"
  by (simp add: topology_loadGraph_def split_beta split: option.splits)

lemma checkGraphProperties_pathCache:
  "pathCache (fst (snd (topology_checkGraphProperties e topo))) = pathCache topo"
  by (simp add: topology_checkGraphProperties_def Let_def split_beta)

lemma checkGraphVertices_pathCache:
  "pathCache (fst (snd (topology_checkGraphVertices e topo))) = pathCache topo"
  by (simp add: topology_checkGraphVertices_def Let_def split_beta)

lemma checkGraphEdges_pathCache:
  "pathCache (fst (snd (topology_checkGraphEdges e topo))) = pathCache topo"
  by (simp add: topology_checkGraphEdges_def Let_def split_beta)

lemma checkGraph_pathCache:
  "pathCache (fst (snd (topology_checkGraph e topo))) = pathCache topo"
  by (simp add: topology_checkGraph_def split_beta checkGraphProperties_pathCache
      checkGraphVertices_pathCache checkGraphEdges_pathCache)

lemma extractEdgeWeights_pathCache:
  "pathCache (fst (snd (topology_extractEdgeWeights e topo))) = pathCache topo"
  by (simp add: topology_extractEdgeWeights_def Let_def split_beta g_mutex_lock_def
      g_mutex_unlock_def)

lemma topology_new_cache:
  assumes "topology_new e path = (Some topo, lg)"
  shows "pathCache topo = None \<and> cache_in_range topo"
proof -
  let ?t = "g_new0_Topology\<lparr>graphPath := path, virtualIP := Map.empty\<rparr>"
  let ?t1 = "fst (snd (topology_loadGraph e ?t))"
  let ?t2 = "fst (snd (topology_checkGraph e ?t1))"
  let ?t3 = "fst (snd (topology_extractEdgeWeights e ?t2))"
  from assms have "topo = ?t3"
    by (simp add: topology_new_def Let_def split_beta split: if_splits)
  moreover have "pathCache ?t3 = None"
    by (simp add: extractEdgeWeights_pathCache checkGraph_pathCache loadGraph_pathCache
        g_new0_Topology_def)
  ultimately show ?thesis by (simp add: cache_in_range_def)
qed

lemma disconnect_cache_in_range:
  "cache_in_range topo \<Longrightarrow> cache_in_range (topology_disconnect topo a)"
  by (simp add: cache_in_range_def topology_disconnect_def)

lemma connect_cache_in_range:
  "cache_in_range topo \<Longrightarrow>
   topology_connect e topo a u ih ch th = Inr (topo', bwDown, bwUp, lg) \<Longrightarrow>
   cache_in_range topo'"
  by (auto simp: connect_unfold Let_def cache_in_range_def split: if_splits option.splits)

text \<open>
  Claim C8, as the code has it. Take a graph in which every edge has a latency above 0
  and every vertex and edge a packet loss in \<open>[0,1]\<close>, two addresses attached to
  vertices of it, and a query between them in which the graph primitives return success
  (and \<open>igraph_get_eid\<close> gives edges of the graph). The cache holds paths that earlier
  queries have computed, so paths in range. Then \<open>topology_getLatency\<close> returns a value
  \<open>\<ge> 0\<close> and \<open>topology_getReliability\<close> a value in \<open>[0,1]\<close>, whether the query is
  answered from the cache or computed, and the cache that the query leaves holds paths
  in range again.
\<close>

theorem query_in_range:
  assumes g: "graph_attributes_ok (graph topo)" and c: "cache_in_range topo"
      and a: "attached_at topo a sv" and b: "attached_at topo b dv"
      and er: "eid_in_range e (graph topo)"
      and i: "igraph_vs_1 e dv = IGRAPH_SUCCESS" "igraph_vector_ptr_init e = IGRAPH_SUCCESS"
             "igraph_vector_init e = IGRAPH_SUCCESS"
      and dj: "igraph_get_shortest_paths_dijkstra e (graph topo) (edgeWeights topo) sv dv =
                 (IGRAPH_SUCCESS, vs)"
      and res: "spec_path_resolves e (graph topo) vs"
  shows "0 \<le> fst (topology_getLatency e topo a b) \<and>
         0 \<le> fst (topology_getReliability e topo a b) \<and>
         fst (topology_getReliability e topo a b) \<le> 1 \<and>
         cache_in_range (fst (snd (topology_getLatency e topo a b))) \<and>
         cache_in_range (fst (snd (topology_getReliability e topo a b)))"
proof -
  have att: "virtualIP topo (address_toNetworkIP a) = Some sv" "0 \<le> sv"
      "virtualIP topo (address_toNetworkIP b) = Some dv" "0 \<le> dv"
    and sv: "0 \<le> sv" "sv < igraph_vcount (graph topo)"
    and dv: "0 \<le> dv" "dv < igraph_vcount (graph topo)"
    using a b by (simp_all add: attached_at_def)
  have "\<exists>p topo'. topology_getPathEntry e topo a b = (Some p, topo', snd (snd (topology_getPathEntry e topo a b)))
          \<and> path_in_range p \<and> cache_in_range topo'"
  proof (cases "topology_getPathFromCache topo a b")
    case (Some p)
    with c cache_in_range_lookup [OF c Some] show ?thesis
      by (simp add: topology_getPathEntry_def)
  next
    case None
    have pc: "pathCache (after_dijkstra e topo) = pathCache topo"
      by (simp add: after_dijkstra_def)
    show ?thesis
    proof (cases "length vs < 2")
      case True
      let ?p = "path_new 1 ((1 - VAN (graph topo) ''packetloss'' sv) *
                              (1 - VAN (graph topo) ''packetloss'' dv))"
      from vertex_unit [OF g sv] vertex_unit [OF g dv]
      have "path_in_range ?p"
        by (simp add: path_in_range_def path_new_def mult_le_one)
      with computePath_short [OF att i dj True] None cache_in_range_store [OF c _ pc, of ?p a b]
      show ?thesis by (simp add: topology_getPathEntry_def)
    next
      case False
      then have len: "2 \<le> length vs" by simp
      let ?p = "path_new (spec_latency e (graph topo) vs)
                           (spec_reliability e (graph topo) sv dv vs)"
      from spec_latency_nonneg [OF g er res] spec_reliability_unit [OF g er res sv dv]
      have "path_in_range ?p"
        by (simp add: path_in_range_def path_new_def)
      with computePath_long [OF att i dj len res] None cache_in_range_store [OF c _ pc, of ?p a b]
      show ?thesis by (simp add: topology_getPathEntry_def)
    qed
  qed
  then obtain p topo' lg where pe: "topology_getPathEntry e topo a b = (Some p, topo', lg)"
    and p: "path_in_range p" and c': "cache_in_range topo'" by blast
  then show ?thesis
    by (simp add: topology_getLatency_def topology_getReliability_def path_in_range_def)
qed

theorem query_in_range_witness:
  "graph_attributes_ok (graph scenario_topo) \<and> cache_in_range scenario_topo \<and>
   attached_at scenario_topo h1 0 \<and> attached_at scenario_topo h2 1 \<and>
   eid_in_range scenario_env (graph scenario_topo) \<and>
   igraph_get_shortest_paths_dijkstra scenario_env (graph scenario_topo)
     (edgeWeights scenario_topo) 0 1 = (IGRAPH_SUCCESS, [0, 1]) \<and>
   spec_path_resolves scenario_env (graph scenario_topo) [0, 1] \<and>
   0 \<le> fst (topology_getLatency scenario_env scenario_topo h1 h2) \<and>
   0 \<le> fst (topology_getReliability scenario_env scenario_topo h1 h2) \<and>
   fst (topology_getReliability scenario_env scenario_topo h1 h2) \<le> 1"
proof -
  have 1: "cache_in_range scenario_topo"
    by (simp add: cache_in_range_def scenario_defs)
  have 2: "attached_at scenario_topo h1 0" "attached_at scenario_topo h2 1"
    by (simp_all add: scenario_defs attached_at_def)
  have 3: "igraph_vs_1 scenario_env 1 = IGRAPH_SUCCESS"
    "igraph_vector_ptr_init scenario_env = IGRAPH_SUCCESS"
    "igraph_vector_init scenario_env = IGRAPH_SUCCESS"
    by (simp_all add: scenario_defs IGRAPH_SUCCESS_def)
  have 4: "igraph_get_shortest_paths_dijkstra scenario_env (graph scenario_topo)
      (edgeWeights scenario_topo) 0 1 = (IGRAPH_SUCCESS, [0, 1])"
    by (simp add: scenario_defs IGRAPH_SUCCESS_def)
  have 5: "spec_path_resolves scenario_env (graph scenario_topo) [0, 1]"
    by (simp add: scenario_defs spec_path_resolves_def IGRAPH_SUCCESS_def)
  from query_in_range [OF scenario_graph_ok 1 2 scenario_eid_in_range 3 4 5]
    scenario_graph_ok 1 2 scenario_eid_in_range 4 5
  show ?thesis by simp
qed

text \<open>
  The claim as it is written fails when a graph primitive fails. On the graph of the
  scenario, whose attributes are in range, with \<open>h1\<close> and \<open>h2\<close> attached and an empty
  cache, a failing Dijkstra makes both queries return -1.
\<close>

theorem query_in_range_counterexample:
  "graph_attributes_ok (graph scenario_topo) \<and>
   attached_at scenario_topo h1 0 \<and> attached_at scenario_topo h2 1 \<and>
   fst (topology_getLatency dijkstra_failing_env scenario_topo h1 h2) = - 1 \<and>
   \<not> 0 \<le> fst (topology_getLatency dijkstra_failing_env scenario_topo h1 h2) \<and>
   fst (topology_getReliability dijkstra_failing_env scenario_topo h1 h2) = - 1 \<and>
   \<not> 0 \<le> fst (topology_getReliability dijkstra_failing_env scenario_topo h1 h2)"
proof -
  have 1: "attached_at scenario_topo h1 0" "attached_at scenario_topo h2 1"
    by (simp_all add: scenario_defs attached_at_def)
  have 2: "fst (topology_getLatency dijkstra_failing_env scenario_topo h1 h2) = - 1"
    by (simp add: dijkstra_failing_env_def scenario_defs query_defs)
  have 3: "fst (topology_getReliability dijkstra_failing_env scenario_topo h1 h2) = - 1"
    by (simp add: dijkstra_failing_env_def scenario_defs query_defs)
  from scenario_graph_ok 1 2 3 show ?thesis by simp
qed

subsection \<open>C9: a failing graph primitive\<close>

text \<open>
  Claim C9. Take a query between two attached addresses that is not answered from the
  cache, in which Dijkstra returns a non-success code or \<open>igraph_get_eid\<close> returns one
  for an edge of the path. \<open>topology_getLatency\<close> and \<open>topology_getReliability\<close> return
  -1; the failure is logged (at level critical for Dijkstra, at level warning for
  \<open>igraph_get_eid\<close>); in the topology that the call leaves the graph mutex is released
  and the path cache is the one from before the call, so that the same query misses
  the cache again.
\<close>

theorem graph_failure_query:
  assumes miss: "topology_getPathFromCache topo a b = None"
      and a: "attached_at topo a sv" and b: "attached_at topo b dv"
      and i: "igraph_vs_1 e dv = IGRAPH_SUCCESS" "igraph_vector_ptr_init e = IGRAPH_SUCCESS"
             "igraph_vector_init e = IGRAPH_SUCCESS"
      and dj: "igraph_get_shortest_paths_dijkstra e (graph topo) (edgeWeights topo) sv dv = (r, vs)"
      and fail: "r \<noteq> IGRAPH_SUCCESS \<or> \<not> spec_path_resolves e (graph topo) vs"
  shows "fst (topology_getLatency e topo a b) = - 1 \<and>
         fst (topology_getReliability e topo a b) = - 1 \<and>
         snd (snd (topology_getLatency e topo a b)) =
           [debug ''computing shortest path between vertex %li (%s) and vertex %li (%s)'',
            if r \<noteq> IGRAPH_SUCCESS
            then critical ''igraph_get_shortest_paths_dijkstra return non-success code %i''
            else warning ''igraph_get_eid return non-success code %i''] \<and>
         snd (snd (topology_getReliability e topo a b)) = snd (snd (topology_getLatency e topo a b)) \<and>
         fst (snd (topology_getLatency e topo a b)) = after_dijkstra e topo \<and>
         fst (snd (topology_getReliability e topo a b)) = after_dijkstra e topo \<and>
         graphLock (after_dijkstra e topo) = False \<and>
         pathCache (after_dijkstra e topo) = pathCache topo \<and>
         topology_getPathFromCache (after_dijkstra e topo) a b = None"
proof -
  have att: "virtualIP topo (address_toNetworkIP a) = Some sv" "0 \<le> sv"
      "virtualIP topo (address_toNetworkIP b) = Some dv" "0 \<le> dv"
    using a b by (simp_all add: attached_at_def)
  have pc: "pathCache (after_dijkstra e topo) = pathCache topo"
    by (simp add: after_dijkstra_def)
  have again: "topology_getPathFromCache (after_dijkstra e topo) a b = None"
    using getPathFromCache_cong [OF pc, of a b] miss by simp
  have lock: "graphLock (after_dijkstra e topo) = False"
    by (simp add: after_dijkstra_def)
  show ?thesis
  proof (cases "r = IGRAPH_SUCCESS")
    case False
    from computePath_dijkstra_fails [OF att i dj False] miss False pc again lock
    show ?thesis
      by (simp add: topology_getLatency_def topology_getReliability_def topology_getPathEntry_def)
  next
    case True
    with fail have nres: "\<not> spec_path_resolves e (graph topo) vs" by simp
    from computePath_eid_fails [OF att i dj [unfolded True] nres] miss True pc again lock
    show ?thesis
      by (simp add: topology_getLatency_def topology_getReliability_def topology_getPathEntry_def)
  qed
qed

theorem graph_failure_query_witness:
  "topology_getPathFromCache scenario_topo h1 h2 = None \<and>
   attached_at scenario_topo h1 0 \<and> attached_at scenario_topo h2 1 \<and>
   igraph_get_shortest_paths_dijkstra dijkstra_failing_env (graph scenario_topo)
     (edgeWeights scenario_topo) 0 1 = (2, []) \<and> 2 \<noteq> IGRAPH_SUCCESS \<and>
   fst (topology_getLatency dijkstra_failing_env scenario_topo h1 h2) = - 1 \<and>
   snd (snd (topology_getLatency dijkstra_failing_env scenario_topo h1 h2)) =
     [debug ''computing shortest path between vertex %li (%s) and vertex %li (%s)'',
      critical ''igraph_get_shortest_paths_dijkstra return non-success code %i''] \<and>
   graphLock (fst (snd (topology_getLatency dijkstra_failing_env scenario_topo h1 h2))) = False \<and>
   pathCache (fst (snd (topology_getLatency dijkstra_failing_env scenario_topo h1 h2))) = None"
proof -
  have 1: "topology_getPathFromCache scenario_topo h1 h2 = None"
    by (simp add: scenario_defs topology_getPathFromCache_def)
  have 2: "attached_at scenario_topo h1 0" "attached_at scenario_topo h2 1"
    by (simp_all add: scenario_defs attached_at_def)
  have 3: "igraph_vs_1 dijkstra_failing_env 1 = IGRAPH_SUCCESS"
    "igraph_vector_ptr_init dijkstra_failing_env = IGRAPH_SUCCESS"
    "igraph_vector_init dijkstra_failing_env = IGRAPH_SUCCESS"
    by (simp_all add: dijkstra_failing_env_def scenario_defs IGRAPH_SUCCESS_def)
  have 4: "igraph_get_shortest_paths_dijkstra dijkstra_failing_env (graph scenario_topo)
     (edgeWeights scenario_topo) 0 1 = (2, [])"
    by (simp add: dijkstra_failing_env_def scenario_defs)
  have 5: "2 \<noteq> IGRAPH_SUCCESS" by (simp add: IGRAPH_SUCCESS_def)
  have 6: "2 \<noteq> IGRAPH_SUCCESS \<or> \<not> spec_path_resolves dijkstra_failing_env (graph scenario_topo) []"
    using 5 by simp
  have 7: "pathCache scenario_topo = None" by (simp add: scenario_defs)
  from graph_failure_query [OF 1 2 3 4 6] 1 2 4 5 7 show ?thesis by simp
qed

subsection \<open>C10: detaching\<close>

text \<open>
  Claim C10. For an attached address \<open>a\<close>, \<open>topology_disconnect\<close> removes the entry of
  \<open>a\<close>'s network address from the \<open>virtualIP\<close> table and nothing else: every other entry
  of the table and so every other attachment, the path cache and every lookup in it
  (also under \<open>a\<close>'s ID), the graph and the edge weights are unchanged, and putting the
  old table back gives the old topology, so no other field has changed.
\<close>

theorem disconnect_frame:
  assumes "attached_at topo a v"
  shows "virtualIP (topology_disconnect topo a) (address_toNetworkIP a) = None \<and>
         dom (virtualIP (topology_disconnect topo a)) =
           dom (virtualIP topo) - {address_toNetworkIP a} \<and>
         (\<forall>k. k \<noteq> address_toNetworkIP a \<longrightarrow>
              virtualIP (topology_disconnect topo a) k = virtualIP topo k) \<and>
         (\<forall>b w. address_toNetworkIP b \<noteq> address_toNetworkIP a \<longrightarrow>
              attached_at (topology_disconnect topo a) b w = attached_at topo b w) \<and>
         pathCache (topology_disconnect topo a) = pathCache topo \<and>
         (\<forall>s d. topology_getPathFromCache (topology_disconnect topo a) s d =
                topology_getPathFromCache topo s d) \<and>
         graph (topology_disconnect topo a) = graph topo \<and>
         edgeWeights (topology_disconnect topo a) = edgeWeights topo \<and>
         (topology_disconnect topo a)\<lparr>virtualIP := virtualIP topo\<rparr> = topo"
  by (auto simp: topology_disconnect_def attached_at_def topology_getPathFromCache_def)

theorem disconnect_frame_witness:
  "attached_at queried_topo h2 1 \<and>
   virtualIP (topology_disconnect queried_topo h2) (address_toNetworkIP h2) = None \<and>
   attached_at (topology_disconnect queried_topo h2) h1 0 \<and>
   topology_getPathFromCache (topology_disconnect queried_topo h2) h1 h2 =
     Some \<lparr>path_getLatency = 10, path_getReliability = 684 / 1000\<rparr>"
proof -
  have q: "queried_topo = fst (snd (topology_getPathEntry scenario_env scenario_topo h1 h2))"
    by (simp add: queried_topo_def topology_getLatency_def split: prod.splits option.splits)
  have 1: "attached_at queried_topo h2 1"
    by (simp add: queried_topo_def scenario_defs query_defs attached_at_def)
  have 2: "attached_at queried_topo h1 0"
    by (simp add: queried_topo_def scenario_defs query_defs attached_at_def)
  have 3: "topology_getPathFromCache queried_topo h1 h2 =
     Some \<lparr>path_getLatency = 10, path_getReliability = 684 / 1000\<rparr>"
    by (simp add: queried_topo_def scenario_defs query_defs)
  have 4: "address_toNetworkIP h1 \<noteq> address_toNetworkIP h2"
    by (simp add: scenario_defs)
  from disconnect_frame [OF 1] 1 2 3 4 show ?thesis by simp
qed

end
